theory Spec2Isabelle
  imports Complex_Main
begin

section \<open>SABR Monte Carlo pricers of \<open>option_models/sabr.py\<close>\<close>

text \<open>
  The embedding follows \<open>sabr.py\<close> line by line. Python floats and the entries of
  numpy arrays are modelled as \<^typ>\<open>real\<close> (exact arithmetic: no NaN, no infinity,
  and no rounding except of the quotient that fixes the number of steps, see
  \<open>float_div\<close> below); a one-dimensional array is a list, a two-dimensional array a list
  of rows (axis 0 is the time index, axis 1 the trajectory). The draws of
  \<open>np.random.standard_normal\<close> are an explicit argument: a function from the
  position in the drawn array to the value drawn there. Exceptions are values of
  \<open>py_error\<close>; a division of two Python scalars by zero raises
  \<open>ZeroDivisionError\<close>, as Python does, while a division inside numpy does not raise.

  Where numpy would produce NaN or an infinity (the mean of no trajectory, the logarithm
  of a spot that is not positive, the square root of \<open>1 - rho\<^sup>2\<close> for a correlation
  outside \<open>[-1, 1]\<close> or of a negative step) the real-valued functions of HOL return
  some number instead. The theorems whose statement depends on such a value assume
  \<open>n_path > 0\<close>, \<open>spot > 0\<close>, \<open>\<bar>rho\<bar> \<le> 1\<close> and \<open>dt > 0\<close>, as the parameters of a
  pricing call are.
\<close>

subsection \<open>Errors, parameters, arrays\<close>

datatype py_error = ZeroDivisionError | IndexError | ValueError | AssertionError

text \<open>The instance attributes set by \<open>ModelABC.__init__\<close> and the two numerical
  parameters \<open>dt\<close> and \<open>n_path\<close> (class attributes, settable on an instance).\<close>

record ModelABC =
  sigma :: real
  vov :: real
  rho :: real
  beta :: real
  intr :: real
  dt :: real
  n_path :: nat

type_synonym draws = "nat \<Rightarrow> nat \<Rightarrow> real"

text \<open>\<open>np.random.standard_normal((n_dt, n_path))\<close>: a negative dimension raises
  \<open>ValueError\<close>; otherwise the array of shape \<open>(n_dt, n_path)\<close> of the draws.\<close>

definition standard_normal :: "draws \<Rightarrow> int \<Rightarrow> nat \<Rightarrow> py_error + real list list" where
  "standard_normal g n N =
     (if n < 0 then Inl ValueError
      else Inr (map (\<lambda>t. map (\<lambda>k. g t k) [0..<N]) [0..<nat n]))"

text \<open>\<open>np.arange(1, n_dt + 1) / n_dt * texp\<close>: empty when \<open>n_dt \<le> 0\<close>; the division
  is numpy's and does not raise.\<close>

definition tobs_grid :: "int \<Rightarrow> real \<Rightarrow> real list" where
  "tobs_grid n texp = map (\<lambda>i. real_of_int i / real_of_int n * texp) [1..n]"

text \<open>\<open>np.cumsum(\<dots>, axis=0)\<close>: running sums down the time axis, per trajectory.\<close>

fun cumsum_from :: "real list \<Rightarrow> real list list \<Rightarrow> real list list" where
  "cumsum_from acc [] = []"
| "cumsum_from acc (r # rs) = (let a = map2 (+) acc r in a # cumsum_from a rs)"

definition cumsum0 :: "nat \<Rightarrow> real list list \<Rightarrow> real list list" where
  "cumsum0 N rows = cumsum_from (replicate N 0) rows"

text \<open>\<open>np.mean\<close> of a one-dimensional array and \<open>np.fmax\<close> of two finite numbers.\<close>

definition mean :: "real list \<Rightarrow> real" where
  "mean xs = sum_list xs / real (length xs)"

definition fmax :: "real \<Rightarrow> real \<Rightarrow> real" where
  "fmax a b = max a b"

subsection \<open>The quotient \<open>texp / self.dt\<close> under \<open>np.ceil\<close>\<close>

text \<open>The number of steps is \<open>int(np.ceil(texp / self.dt))\<close> (lines 75, 116 and 150). The
  ceiling turns the rounding of the quotient into a whole step, so here the quotient is the
  double that Python computes: the exact quotient rounded to the nearest number with a
  significand of 53 bits, ties to the even significand (\<open>round_double\<close>; the exponent
  range is taken unbounded, so there is no overflow and no underflow). For a number
  \<open>x \<noteq> 0\<close> with \<open>2\<^sup>e \<le> \<bar>x\<bar> < 2\<^sup>e\<^sup>+\<^sup>1\<close> the spacing of the doubles around it is
  \<open>2\<^sup>e\<^sup>-\<^sup>5\<^sup>2\<close>: \<open>ulp_exp x = e - 52\<close>.\<close>

definition rne :: "real \<Rightarrow> int" where
  "rne y = (let f = \<lfloor>y\<rfloor>; r = y - of_int f
            in if r < 1/2 then f else if 1/2 < r then f + 1 else if even f then f else f + 1)"

definition ulp_exp :: "real \<Rightarrow> int" where
  "ulp_exp x = \<lfloor>log 2 \<bar>x\<bar>\<rfloor> - 52"

definition round_double :: "real \<Rightarrow> real" where
  "round_double x =
     (if x = 0 then 0
      else sgn x * (of_int (rne (\<bar>x\<bar> / 2 powr of_int (ulp_exp x))) * 2 powr of_int (ulp_exp x)))"

definition float_div :: "real \<Rightarrow> real \<Rightarrow> real" where
  "float_div x y = round_double (x / y)"

subsection \<open>\<open>ModelABC.sigma_path\<close> (lines 65 to 85)\<close>

definition sigma_path :: "ModelABC \<Rightarrow> draws \<Rightarrow> real \<Rightarrow> py_error + real list list" where
  "sigma_path m g texp =
     (if dt m = 0 then Inl ZeroDivisionError
      else
        let n_dt = \<lceil>float_div texp (dt m)\<rceil>;
            tobs = tobs_grid n_dt texp
        in
          if n_dt = 0 then Inl ZeroDivisionError
          else
            let dt' = texp / real_of_int n_dt
            in
              if tobs = [] then Inl IndexError
              else if texp \<noteq> last tobs then Inl AssertionError
              else
                (case standard_normal g n_dt (n_path m) of
                   Inl e \<Rightarrow> Inl e
                 | Inr Z \<Rightarrow>
                     let Z_t = cumsum0 (n_path m) (map (map (\<lambda>z. z * sqrt dt')) Z);
                         sigma_t = map2 (\<lambda>row tb. map (\<lambda>x. exp (vov m * (x - vov m / 2 * tb))) row)
                                     Z_t tobs
                     in Inr (replicate (n_path m) 1 # sigma_t)))"

subsection \<open>\<open>ModelABC.intvar_normalized\<close> (lines 88 to 103)\<close>

text \<open>\<open>weight[[0, -1]] = 0.5\<close> raises \<open>IndexError\<close> on an array without rows.\<close>

definition trapz_weight :: "nat \<Rightarrow> real list" where
  "trapz_weight M = (replicate M (1::real))[0 := 1/2, M - 1 := 1/2]"

definition intvar_normalized :: "real list list \<Rightarrow> py_error + real list" where
  "intvar_normalized path =
     (case path of
        [] \<Rightarrow> Inl IndexError
      | r0 # _ \<Rightarrow>
          let weight = trapz_weight (length path);
              weight = map (\<lambda>w. w / sum_list weight) weight
          in Inr (map (\<lambda>k. sum_list (map2 (\<lambda>w row. w * (row ! k)\<^sup>2) weight path))
                    [0..<length r0]))"

subsection \<open>Direct Monte Carlo: \<open>ModelBsmMC.price\<close> and \<open>ModelNormalMC.price\<close>\<close>

text \<open>Step (1), lines 116 to 124 of \<open>ModelBsmMC.price\<close>; lines 150 to 158 of
  \<open>ModelNormalMC.price\<close> are the same text. \<open>W\<close> is drawn before \<open>Z\<close>. The result
  is \<open>n_dt\<close>, the correlated \<open>W\<close> and \<open>sigma_t\<close>.\<close>

definition direct_paths ::
  "ModelABC \<Rightarrow> draws \<Rightarrow> draws \<Rightarrow> real \<Rightarrow> py_error + (nat \<times> real list list \<times> real list list)" where
  "direct_paths m gW gZ texp =
     (if dt m = 0 then Inl ZeroDivisionError
      else
        let n_dt = \<lceil>float_div texp (dt m)\<rceil>;
            tobs = tobs_grid n_dt texp
        in
          (case standard_normal gW n_dt (n_path m) of
             Inl e \<Rightarrow> Inl e
           | Inr W0 \<Rightarrow>
               (case standard_normal gZ n_dt (n_path m) of
                  Inl e \<Rightarrow> Inl e
                | Inr Z \<Rightarrow>
                    let W = map2 (map2 (\<lambda>z w. rho m * z + sqrt (1 - (rho m)\<^sup>2) * w)) Z W0;
                        Z_t = cumsum0 (n_path m) (map (map (\<lambda>z. z * sqrt (dt m))) Z);
                        log_sigma = map2 (\<lambda>row tb. map (\<lambda>x. vov m * (x - vov m / 2 * tb)) row)
                                      Z_t tobs;
                        sigma_t = map (map exp) log_sigma;
                        sigma_t = map (map (\<lambda>x. sigma m * x)) (replicate (n_path m) 1 # sigma_t)
                    in Inr (nat n_dt, W, sigma_t))))"

text \<open>Step (2) of \<open>ModelBsmMC.price\<close>, lines 127 to 132: Euler steps on the log of the spot.\<close>

definition BsmMC_S_T ::
  "ModelABC \<Rightarrow> nat \<Rightarrow> real list list \<Rightarrow> real list list \<Rightarrow> real \<Rightarrow> real list" where
  "BsmMC_S_T m n_dt W sigma_t spot =
     map (\<lambda>i. exp (fold (\<lambda>t log_temp.
                      log_temp + sigma_t ! t ! i * W ! t ! i * sqrt (dt m)
                        - 0.5 * (sigma_t ! t ! i)\<^sup>2 * dt m)
                    [0..<n_dt] (ln spot)))
       [0..<n_path m]"

text \<open>Step (2) of \<open>ModelNormalMC.price\<close>, lines 162 to 165: Euler steps on the spot.\<close>

definition NormalMC_S_T ::
  "ModelABC \<Rightarrow> nat \<Rightarrow> real list list \<Rightarrow> real list list \<Rightarrow> real \<Rightarrow> real list" where
  "NormalMC_S_T m n_dt W sigma_t spot =
     map (\<lambda>k. fold (\<lambda>t s. s + sigma_t ! t ! k * W ! t ! k * sqrt (dt m)) [0..<n_dt] spot)
       [0..<n_path m]"

text \<open>Step (3), lines 135 and 136 (168 and 169): one discounted mean payoff per strike.\<close>

definition payoff_price :: "ModelABC \<Rightarrow> real list \<Rightarrow> real list \<Rightarrow> real \<Rightarrow> real \<Rightarrow> real list" where
  "payoff_price m S_T strike texp cp =
     (let df = exp (- intr m * texp)
      in map (\<lambda>K. df * mean (map (\<lambda>s. fmax (cp * (s - K)) 0) S_T)) strike)"

definition ModelBsmMC_S_T :: "ModelABC \<Rightarrow> draws \<Rightarrow> draws \<Rightarrow> real \<Rightarrow> real \<Rightarrow> py_error + real list" where
  "ModelBsmMC_S_T m gW gZ spot texp =
     (case direct_paths m gW gZ texp of
        Inl e \<Rightarrow> Inl e
      | Inr (n_dt, W, sigma_t) \<Rightarrow> Inr (BsmMC_S_T m n_dt W sigma_t spot))"

definition ModelBsmMC_price ::
  "ModelABC \<Rightarrow> draws \<Rightarrow> draws \<Rightarrow> real list \<Rightarrow> real \<Rightarrow> real \<Rightarrow> real \<Rightarrow> py_error + real list" where
  "ModelBsmMC_price m gW gZ strike spot texp cp =
     (case ModelBsmMC_S_T m gW gZ spot texp of
        Inl e \<Rightarrow> Inl e
      | Inr S_T \<Rightarrow> Inr (payoff_price m S_T strike texp cp))"

definition ModelNormalMC_S_T :: "ModelABC \<Rightarrow> draws \<Rightarrow> draws \<Rightarrow> real \<Rightarrow> real \<Rightarrow> py_error + real list" where
  "ModelNormalMC_S_T m gW gZ spot texp =
     (case direct_paths m gW gZ texp of
        Inl e \<Rightarrow> Inl e
      | Inr (n_dt, W, sigma_t) \<Rightarrow> Inr (NormalMC_S_T m n_dt W sigma_t spot))"

definition ModelNormalMC_price ::
  "ModelABC \<Rightarrow> draws \<Rightarrow> draws \<Rightarrow> real list \<Rightarrow> real \<Rightarrow> real \<Rightarrow> real \<Rightarrow> py_error + real list" where
  "ModelNormalMC_price m gW gZ strike spot texp cp =
     (case ModelNormalMC_S_T m gW gZ spot texp of
        Inl e \<Rightarrow> Inl e
      | Inr S_T \<Rightarrow> Inr (payoff_price m S_T strike texp cp))"

subsection \<open>\<open>ModelABC.base_model\<close> (lines 29 to 38) and the pyfeng pricing formula\<close>

datatype base_kind = Norm | Bsm

text \<open>The object built by \<open>pf.Norm(sigma, intr=\<dots>)\<close> or \<open>pf.Bsm(sigma, intr=\<dots>)\<close>:
  which of the two, the volatilities (one per trajectory) and the rate.\<close>

record base =
  kind :: base_kind
  base_sigma :: "real list"
  base_intr :: real

definition base_model :: "ModelABC \<Rightarrow> real list option \<Rightarrow> py_error + base" where
  "base_model m sigma_arg =
     (let s = (case sigma_arg of None \<Rightarrow> [sigma m] | Some v \<Rightarrow> v)
      in if beta m = 0 then Inr \<lparr>kind = Norm, base_sigma = s, base_intr = intr m\<rparr>
         else if beta m = 1 then Inr \<lparr>kind = Bsm, base_sigma = s, base_intr = intr m\<rparr>
         else Inl ValueError)"

text \<open>pyfeng is not part of the repository: its closed-form price of one option is the
  parameter \<open>pf\<close>, applied to the kind of model, its volatility and rate, and to strike,
  spot, maturity and call/put flag. \<open>m.price(strike[:, None], spot_equiv, texp, cp)\<close>
  broadcasts it to one row per strike and one column per trajectory.\<close>

type_synonym pf_price = "base_kind \<Rightarrow> real \<Rightarrow> real \<Rightarrow> real \<Rightarrow> real \<Rightarrow> real \<Rightarrow> real \<Rightarrow> real"

definition base_price ::
  "pf_price \<Rightarrow> base \<Rightarrow> real list \<Rightarrow> real list \<Rightarrow> real \<Rightarrow> real \<Rightarrow> real list list" where
  "base_price pf b strike spot_equiv texp cp =
     map (\<lambda>K. map2 (\<lambda>s v. pf (kind b) v (base_intr b) K s texp cp) spot_equiv (base_sigma b))
       strike"

subsection \<open>Conditional Monte Carlo: \<open>ModelBsmCondMC.price\<close> and \<open>ModelNormalCondMC.price\<close>\<close>

text \<open>Steps (1) and (2) of \<open>ModelBsmCondMC.price\<close>, lines 181 to 188: the effective
  volatility \<open>vol\<close> and the equivalent spot \<open>spot_equiv\<close> of every trajectory.
  \<open>self.rho / self.vov\<close> divides two Python scalars.\<close>

definition ModelBsmCondMC_equiv ::
  "ModelABC \<Rightarrow> draws \<Rightarrow> real \<Rightarrow> real \<Rightarrow> py_error + (real list \<times> real list)" where
  "ModelBsmCondMC_equiv m g spot texp =
     (case sigma_path m g texp of
        Inl e \<Rightarrow> Inl e
      | Inr vol_path \<Rightarrow>
          if vol_path = [] then Inl IndexError
          else
            let sigma_t = map (\<lambda>x. sigma m * x) (last vol_path)
            in
              (case intvar_normalized vol_path of
                 Inl e \<Rightarrow> Inl e
               | Inr I_t \<Rightarrow>
                   let vol = map (\<lambda>I. sigma m * sqrt ((1 - (rho m)\<^sup>2) * I)) I_t
                   in
                     if vov m = 0 then Inl ZeroDivisionError
                     else
                       let log_temp =
                             map2 (\<lambda>s I. rho m / vov m * (s - sigma m)
                                           - (rho m)\<^sup>2 * (sigma m)\<^sup>2 * texp / 2 * I)
                               sigma_t I_t;
                           spot_equiv = map (\<lambda>l. spot * exp l) log_temp
                       in Inr (vol, spot_equiv)))"

text \<open>Step (3), lines 191 and 192 (217 and 218).\<close>

definition cond_price ::
  "pf_price \<Rightarrow> ModelABC \<Rightarrow> real list \<Rightarrow> real list \<Rightarrow> real list \<Rightarrow> real \<Rightarrow> real
     \<Rightarrow> py_error + real list" where
  "cond_price pf m vol spot_equiv strike texp cp =
     (case base_model m (Some vol) of
        Inl e \<Rightarrow> Inl e
      | Inr b \<Rightarrow> Inr (map mean (base_price pf b strike spot_equiv texp cp)))"

definition ModelBsmCondMC_price ::
  "pf_price \<Rightarrow> ModelABC \<Rightarrow> draws \<Rightarrow> real list \<Rightarrow> real \<Rightarrow> real \<Rightarrow> real \<Rightarrow> py_error + real list" where
  "ModelBsmCondMC_price pf m g strike spot texp cp =
     (case ModelBsmCondMC_equiv m g spot texp of
        Inl e \<Rightarrow> Inl e
      | Inr (vol, spot_equiv) \<Rightarrow> cond_price pf m vol spot_equiv strike texp cp)"

text \<open>Steps (1) and (2) of \<open>ModelNormalCondMC.price\<close>, lines 207 to 214. Here
  \<open>sigma_t\<close> and \<open>sigma_0\<close> are rows of \<open>vol_path\<close> as \<open>sigma_path\<close> returns it.\<close>

definition ModelNormalCondMC_equiv ::
  "ModelABC \<Rightarrow> draws \<Rightarrow> real \<Rightarrow> real \<Rightarrow> py_error + (real list \<times> real list)" where
  "ModelNormalCondMC_equiv m g spot texp =
     (case sigma_path m g texp of
        Inl e \<Rightarrow> Inl e
      | Inr vol_path \<Rightarrow>
          if vol_path = [] then Inl IndexError
          else
            let sigma_t = last vol_path;
                sigma_0 = hd vol_path
            in
              (case intvar_normalized vol_path of
                 Inl e \<Rightarrow> Inl e
               | Inr I_t \<Rightarrow>
                   let vol = map (\<lambda>I. sigma m * sqrt ((1 - (rho m)\<^sup>2) * I)) I_t
                   in
                     if vov m = 0 then Inl ZeroDivisionError
                     else
                       let spot_equiv =
                             map2 (\<lambda>s s0. spot + rho m / vov m * (s - s0)) sigma_t sigma_0
                       in Inr (vol, spot_equiv)))"

definition ModelNormalCondMC_price ::
  "pf_price \<Rightarrow> ModelABC \<Rightarrow> draws \<Rightarrow> real list \<Rightarrow> real \<Rightarrow> real \<Rightarrow> real \<Rightarrow> py_error + real list" where
  "ModelNormalCondMC_price pf m g strike spot texp cp =
     (case ModelNormalCondMC_equiv m g spot texp of
        Inl e \<Rightarrow> Inl e
      | Inr (vol, spot_equiv) \<Rightarrow> cond_price pf m vol spot_equiv strike texp cp)"

subsection \<open>The trapezoidal weights as the specification words them\<close>

text \<open>For a path with time indices \<open>0..n\<close>: weight one half at the first and at the
  last index, weight one at the indices between.\<close>

definition spec_weight :: "nat \<Rightarrow> nat \<Rightarrow> real" where
  "spec_weight n t = (if t = 0 \<or> t = n then 1/2 else 1)"

subsection \<open>The formulas of the conditional pricers as the specification words them\<close>

text \<open>Effective volatility of a trajectory with normalized integrated variance \<open>I\<close>.\<close>

definition spec_vol_eff :: "ModelABC \<Rightarrow> real \<Rightarrow> real" where
  "spec_vol_eff m I = sigma m * sqrt ((1 - (rho m)\<^sup>2) * I)"

text \<open>Equivalent spot, log-normal and normal, from the terminal and initial volatility
  \<open>sT\<close> and \<open>s0\<close> of the trajectory in absolute units.\<close>

definition spec_spot_eq_lognormal :: "ModelABC \<Rightarrow> real \<Rightarrow> real \<Rightarrow> real \<Rightarrow> real \<Rightarrow> real" where
  "spec_spot_eq_lognormal m spot texp sT I =
     spot * exp (rho m / vov m * (sT - sigma m) - (rho m)\<^sup>2 * (sigma m)\<^sup>2 * texp / 2 * I)"

definition spec_spot_eq_normal :: "ModelABC \<Rightarrow> real \<Rightarrow> real \<Rightarrow> real \<Rightarrow> real" where
  "spec_spot_eq_normal m spot sT s0 = spot + rho m / vov m * (sT - s0)"

text \<open>The effective step of the discretization: the maturity over the number of steps.\<close>

definition spec_step :: "ModelABC \<Rightarrow> real \<Rightarrow> real" where
  "spec_step m texp = texp / real_of_int \<lceil>float_div texp (dt m)\<rceil>"

subsection \<open>Inputs for the concrete evaluations\<close>

text \<open>The realization of the draws in which every draw is \<open>c\<close>, and a pricing formula
  standing for pyfeng's that returns the spot it is given.\<close>

definition const_draws :: "real \<Rightarrow> draws" where
  "const_draws c t k = c"

definition pf_spot :: pf_price where
  "pf_spot b v r K s texp cp = s"

section \<open>Lemmas on the double quotient\<close>

lemma rne_of_int: "rne (of_int j) = j"
  by (simp add: rne_def)

lemma rne_ge_floor: "\<lfloor>y\<rfloor> \<le> rne y"
  by (simp add: rne_def Let_def)

lemma round_double_0: "round_double 0 = 0"
  by (simp add: round_double_def)

lemma ulp_le: 
  assumes "x \<noteq> 0" shows "2 powr of_int (ulp_exp x) \<le> \<bar>x\<bar>"
proof -
  have "of_int (ulp_exp x) \<le> log 2 \<bar>x\<bar>"
    unfolding ulp_exp_def by (simp add: algebra_simps) linarith
  then have "2 powr of_int (ulp_exp x) \<le> 2 powr (log 2 \<bar>x\<bar>)"
    by (intro powr_mono) simp_all
  also have "\<dots> = \<bar>x\<bar>" using assms by simp
  finally show ?thesis .
qed

lemma rne_scaled_pos:
  assumes "x \<noteq> 0" shows "0 < rne (\<bar>x\<bar> / 2 powr of_int (ulp_exp x))"
proof -
  have "1 \<le> \<bar>x\<bar> / 2 powr of_int (ulp_exp x)"
    using ulp_le[OF assms] by (simp add: le_divide_eq)
  then have "1 \<le> \<lfloor>\<bar>x\<bar> / 2 powr of_int (ulp_exp x)\<rfloor>" by linarith
  with rne_ge_floor[of "\<bar>x\<bar> / 2 powr of_int (ulp_exp x)"] show ?thesis by linarith
qed

lemma round_double_pos: "0 < x \<Longrightarrow> 0 < round_double x"
  using rne_scaled_pos[of x] by (simp add: round_double_def)

lemma round_double_neg: "x < 0 \<Longrightarrow> round_double x < 0"
  using rne_scaled_pos[of x] by (simp add: round_double_def mult_pos_pos)

lemma round_double_exact:
  assumes "x \<noteq> 0" and "\<bar>x\<bar> / 2 powr of_int (ulp_exp x) = of_int j"
  shows "round_double x = x"
proof -
  have "round_double x = sgn x * (of_int j * 2 powr of_int (ulp_exp x))"
    using assms by (simp add: round_double_def rne_of_int)
  also have "of_int j * 2 powr of_int (ulp_exp x) = \<bar>x\<bar>"
    using assms(2)[symmetric] by simp
  also have "sgn x * \<bar>x\<bar> = x" by (simp add: sgn_mult_abs)
  finally show ?thesis .
qed

lemma round_double_dyadic:
  assumes k: "k \<noteq> 0" and b: "\<bar>k\<bar> < 2 ^ 53"
  shows "round_double (of_int k * 2 powr of_int j) = of_int k * 2 powr of_int j"
proof -
  define x :: real where "x = of_int k * 2 powr of_int j"
  have x0: "x \<noteq> 0" using k by (simp add: x_def)
  have ax: "\<bar>x\<bar> = of_int \<bar>k\<bar> * 2 powr of_int j" by (simp add: x_def abs_mult)
  have "\<bar>x\<bar> < 2 ^ 53 * 2 powr of_int j"
  proof -
    have "(of_int \<bar>k\<bar> :: real) < of_int (2 ^ 53)" using b by (simp only: of_int_less_iff)
    then have "(of_int \<bar>k\<bar> :: real) < 2 ^ 53" by simp
    then show ?thesis unfolding ax by (simp add: mult_less_cancel_right)
  qed
  also have "(2::real) ^ 53 * 2 powr of_int j = 2 powr (of_int (52 + j) + 1)"
    by (simp add: powr_add powr_realpow[symmetric] algebra_simps)
  finally have up: "\<bar>x\<bar> < 2 powr (of_int (52 + j) + 1)" .
  have "\<lfloor>log 2 \<bar>x\<bar>\<rfloor> \<le> 52 + j"
  proof (rule ccontr)
    assume "\<not> \<lfloor>log 2 \<bar>x\<bar>\<rfloor> \<le> 52 + j"
    then have "52 + j + 1 \<le> \<lfloor>log 2 \<bar>x\<bar>\<rfloor>" by linarith
    then have "of_int (52 + j + 1) \<le> log 2 \<bar>x\<bar>" by (simp only: le_floor_iff)
    then have "2 powr of_int (52 + j + 1) \<le> 2 powr log 2 \<bar>x\<bar>" by (intro powr_mono) simp_all
    also have "\<dots> = \<bar>x\<bar>" using x0 by simp
    finally show False using up by simp
  qed
  then have u: "ulp_exp x \<le> j" by (simp add: ulp_exp_def)
  define d where "d = nat (j - ulp_exp x)"
  have dj: "of_int j = of_int (ulp_exp x) + real d" using u by (simp add: d_def)
  have "\<bar>x\<bar> / 2 powr of_int (ulp_exp x) = of_int \<bar>k\<bar> * 2 powr real d"
    unfolding ax dj by (simp add: powr_add)
  also have "\<dots> = of_int (\<bar>k\<bar> * 2 ^ d)" by (simp add: powr_realpow)
  finally have "round_double x = x" by (rule round_double_exact[OF x0])
  then show ?thesis by (simp add: x_def)
qed

lemma round_double_of_int:
  assumes "\<bar>k\<bar> < 2 ^ 53" shows "round_double (of_int k) = of_int k"
proof (cases "k = 0")
  case True then show ?thesis by (simp add: round_double_0)
next
  case False
  from round_double_dyadic[OF False assms, of 0] show ?thesis by simp
qed

lemma round_double_three_halves: "round_double (3 / 2) = 3 / 2"
  using round_double_dyadic[of 3 "- 1"] by (simp add: powr_minus field_simps)

lemma float_div_values:
  "float_div 1 1 = 1" "float_div 6 4 = 3 / 2" "float_div (3 / 2) 1 = 3 / 2"
  "float_div 0 1 = 0" "float_div (- 2) 1 = - 2"
  using round_double_of_int[of 1] round_double_of_int[of "- 2"] round_double_three_halves
  by (simp_all add: float_div_def round_double_0)

text \<open>The doubles nearest to 1.1 and to 0.1 are \<open>2476979795053773 / 2\<^sup>5\<^sup>1\<close> and
  \<open>3602879701896397 / 2\<^sup>5\<^sup>5\<close>. Their exact quotient is a little more than 11, with
  ceiling 12; the double quotient is 11, which gives the 11 steps that Python takes.\<close>

lemma quotient_11: "(2476979795053773 / 2251799813685248) / (3602879701896397 / 36028797018963968 :: real)
   = 39631676720860368 / 3602879701896397"
  by simp

lemma ulp_exp_11: "ulp_exp (39631676720860368 / 3602879701896397) = - 49"
proof -
  have "\<lfloor>log 2 \<bar>39631676720860368 / 3602879701896397 :: real\<bar>\<rfloor> = 3"
    by (subst floor_log_eq_powr_iff) simp_all
  then show ?thesis by (simp add: ulp_exp_def)
qed

lemma rne_11: "rne (39631676720860368 / 3602879701896397 * 2 ^ 49) = 6192449487634432"
proof -
  have f: "\<lfloor>39631676720860368 / 3602879701896397 * 2 ^ 49 :: real\<rfloor> = 6192449487634432"
    by (rule floor_unique) (simp_all add: field_simps)
  show ?thesis
    unfolding rne_def Let_def f by (simp add: field_simps)
qed

lemma round_double_11: "round_double (39631676720860368 / 3602879701896397) = 11"
proof -
  have p: "(2::real) powr of_int (- 49) = 1 / 2 ^ 49"
    by (simp add: powr_minus powr_realpow[symmetric] inverse_eq_divide)
  have "round_double (39631676720860368 / 3602879701896397)
      = of_int (rne (39631676720860368 / 3602879701896397 / (1 / 2 ^ 49))) * (1 / 2 ^ 49)"
    unfolding round_double_def ulp_exp_11 p by simp
  also have "39631676720860368 / 3602879701896397 / (1 / 2 ^ 49 :: real)
      = 39631676720860368 / 3602879701896397 * 2 ^ 49" by simp
  finally show ?thesis unfolding rne_11 by simp
qed

lemma float_div_11:
  "float_div (2476979795053773 / 2251799813685248) (3602879701896397 / 36028797018963968) = 11"
  unfolding float_div_def quotient_11 by (rule round_double_11)

lemma exact_ceiling_11:
  "\<lceil>(2476979795053773 / 2251799813685248) / (3602879701896397 / 36028797018963968 :: real)\<rceil> = 12"
  unfolding quotient_11 by (rule ceiling_unique) simp_all

text \<open>The doubles nearest to 2.1 and to 0.7 are \<open>4728779608739021 / 2\<^sup>5\<^sup>1\<close> and
  \<open>3152519739159347 / 2\<^sup>5\<^sup>2\<close>; their double quotient is \<open>3 + 2\<^sup>-\<^sup>5\<^sup>1\<close>, which gives 4
  steps.\<close>

lemma ceiling_float_div_3:
  "\<lceil>float_div (4728779608739021 / 2251799813685248) (3152519739159347 / 4503599627370496)\<rceil> = 4"
proof -
  have q: "(4728779608739021 / 2251799813685248) / (3152519739159347 / 4503599627370496 :: real)
             = 9457559217478042 / 3152519739159347" by simp
  have "\<lfloor>log 2 \<bar>9457559217478042 / 3152519739159347 :: real\<bar>\<rfloor> = 1"
    by (subst floor_log_eq_powr_iff) simp_all
  then have u: "ulp_exp (9457559217478042 / 3152519739159347) = - 51" by (simp add: ulp_exp_def)
  have p: "(2::real) powr of_int (- 51) = 1 / 2 ^ 51"
    by (simp add: powr_minus powr_realpow[symmetric] inverse_eq_divide)
  have f: "\<lfloor>9457559217478042 / 3152519739159347 * 2 ^ 51 :: real\<rfloor> = 6755399441055744"
    by (rule floor_unique) (simp_all add: field_simps)
  have r: "rne (9457559217478042 / 3152519739159347 * 2 ^ 51) = 6755399441055745"
    unfolding rne_def Let_def f by (simp add: field_simps)
  have "round_double (9457559217478042 / 3152519739159347)
      = of_int (rne (9457559217478042 / 3152519739159347 / (1 / 2 ^ 51))) * (1 / 2 ^ 51)"
    unfolding round_double_def u p by simp
  also have "9457559217478042 / 3152519739159347 / (1 / 2 ^ 51 :: real)
      = 9457559217478042 / 3152519739159347 * 2 ^ 51" by simp
  finally have "round_double (9457559217478042 / 3152519739159347) = 6755399441055745 / 2 ^ 51"
    unfolding r by simp
  then show ?thesis
    unfolding float_div_def q by (simp add: ceiling_unique)
qed

section \<open>Lemmas on the arrays\<close>

lemma length_cumsum_from: "length (cumsum_from acc rs) = length rs"
  by (induction rs arbitrary: acc) (simp_all add: Let_def)

lemma rows_cumsum_from:
  "length acc = N \<Longrightarrow> \<forall>r\<in>set rs. length r = N \<Longrightarrow> \<forall>r\<in>set (cumsum_from acc rs). length r = N"
proof (induction rs arbitrary: acc)
  case Nil
  then show ?case by simp
next
  case (Cons r rs)
  have "length (map2 (+) acc r) = N" using Cons.prems by simp
  from Cons.IH[OF this] Cons.prems show ?case by (simp add: Let_def)
qed

lemma length_tobs_grid: "length (tobs_grid n texp) = nat n"
  by (simp add: tobs_grid_def)

lemma nth_tobs_grid: "k < nat n \<Longrightarrow> tobs_grid n texp ! k = real (Suc k) / real_of_int n * texp"
  unfolding tobs_grid_def by simp

lemma last_tobs_grid:
  assumes n: "0 < n"
  shows "last (tobs_grid n texp) = texp"
proof -
  have ne: "tobs_grid n texp \<noteq> []"
    using n length_tobs_grid[of n texp] by (cases "tobs_grid n texp") simp_all
  have "last (tobs_grid n texp) = tobs_grid n texp ! (nat n - 1)"
    using ne by (simp add: last_conv_nth length_tobs_grid)
  also have "\<dots> = real (Suc (nat n - 1)) / real_of_int n * texp"
    using n by (intro nth_tobs_grid) simp
  also have "\<dots> = texp" using n by simp
  finally show ?thesis .
qed

lemma n_dt_pos:
  assumes "0 < texp" and "0 < d"
  shows "0 < \<lceil>float_div texp d\<rceil>"
proof -
  have "0 < texp / d" using assms by simp
  then have "0 < float_div texp d" unfolding float_div_def by (rule round_double_pos)
  then show ?thesis by linarith
qed

lemma n_dt_nonpos:
  assumes "texp \<le> 0" and "0 < d"
  shows "\<lceil>float_div texp d\<rceil> \<le> 0"
proof -
  have q: "texp / d \<le> 0" using assms by (simp add: divide_nonpos_pos)
  have "float_div texp d \<le> 0"
  proof (cases "texp / d = 0")
    case True
    show ?thesis unfolding float_div_def True by (simp add: round_double_0)
  next
    case False
    with q have "texp / d < 0" by linarith
    then have "round_double (texp / d) < 0" by (rule round_double_neg)
    then show ?thesis by (simp add: float_div_def)
  qed
  then show ?thesis by (simp add: ceiling_le_iff)
qed

lemma sigma_path_ok:
  assumes "0 < texp" "0 < dt m"
  shows "sigma_path m g texp =
     Inr (replicate (n_path m) 1 #
          map2 (\<lambda>row tb. map (\<lambda>x. exp (vov m * (x - vov m / 2 * tb))) row)
            (cumsum0 (n_path m)
               (map (map (\<lambda>z. z * sqrt (texp / real_of_int \<lceil>float_div texp (dt m)\<rceil>)))
                  (map (\<lambda>t. map (\<lambda>k. g t k) [0..<n_path m]) [0..<nat \<lceil>float_div texp (dt m)\<rceil>])))
            (tobs_grid \<lceil>float_div texp (dt m)\<rceil> texp))"
proof -
  define n where "n = \<lceil>float_div texp (dt m)\<rceil>"
  have pos: "0 < n" unfolding n_def using assms by (rule n_dt_pos)
  have ne: "tobs_grid n texp \<noteq> []"
    using pos length_tobs_grid[of n texp] by (cases "tobs_grid n texp") simp_all
  have d: "dt m \<noteq> 0" using assms by simp
  have "sigma_path m g texp =
     (case standard_normal g n (n_path m) of
        Inl e \<Rightarrow> Inl e
      | Inr Z \<Rightarrow>
          Inr (replicate (n_path m) 1 #
               map2 (\<lambda>row tb. map (\<lambda>x. exp (vov m * (x - vov m / 2 * tb))) row)
                 (cumsum0 (n_path m) (map (map (\<lambda>z. z * sqrt (texp / real_of_int n))) Z))
                 (tobs_grid n texp)))"
    unfolding sigma_path_def Let_def n_def[symmetric]
    using d pos ne last_tobs_grid[OF pos, of texp] by simp
  also have "standard_normal g n (n_path m) =
      Inr (map (\<lambda>t. map (\<lambda>k. g t k) [0..<n_path m]) [0..<nat n])"
    using pos by (simp add: standard_normal_def)
  finally show ?thesis unfolding n_def by simp
qed

lemma trapz_weight_spec:
  assumes "1 \<le> n"
  shows "trapz_weight (Suc n) = map (spec_weight n) [0..<Suc n]"
proof (rule nth_equalityI)
  show "length (trapz_weight (Suc n)) = length (map (spec_weight n) [0..<Suc n])"
    by (simp add: trapz_weight_def del: replicate.simps)
next
  fix i assume "i < length (trapz_weight (Suc n))"
  then have i: "i < Suc n" by (simp add: trapz_weight_def del: replicate.simps)
  then have "map (spec_weight n) [0..<Suc n] ! i = spec_weight n i"
    by (simp only: nth_map_upt add_0 minus_nat.diff_0)
  moreover have "trapz_weight (Suc n) ! i = spec_weight n i"
    using i assms by (simp add: trapz_weight_def spec_weight_def nth_list_update del: replicate.simps)
  ultimately show "trapz_weight (Suc n) ! i = map (spec_weight n) [0..<Suc n] ! i" by simp
qed

lemma sum_spec_weight:
  assumes "1 \<le> n"
  shows "(\<Sum>t\<le>n. spec_weight n t) = real n"
proof -
  obtain k where n: "n = Suc k" using assms by (cases n) simp_all
  have "(\<Sum>t\<le>n. spec_weight n t) = (\<Sum>t\<le>k. spec_weight n t) + spec_weight n n"
    unfolding n by simp
  also have "(\<Sum>t\<le>k. spec_weight n t) = spec_weight n 0 + (\<Sum>t<k. spec_weight n (Suc t))"
    by (simp add: sum.atMost_shift)
  also have "(\<Sum>t<k. spec_weight n (Suc t)) = (\<Sum>t<k. 1)"
    by (rule sum.cong) (simp_all add: spec_weight_def n)
  finally show ?thesis by (simp add: spec_weight_def n)
qed

lemma sum_list_upt_atMost: "sum_list (map f [0..<Suc n]) = (\<Sum>t\<le>n. f t :: real)"
  by (simp add: interv_sum_list_conv_sum_set_nat atLeast0AtMost atLeastLessThanSuc_atLeastAtMost del: upt_Suc)


lemma map2_same_upt:
  "map2 h (map f [0..<M]) (map g [0..<M]) = map (\<lambda>t. h (f t) (g t)) [0..<M]"
  by (simp add: zip_map_map zip_same_conv_map)

lemma intvar_normalized_eq:
  assumes len: "length path = Suc n" and n: "1 \<le> n" and rows: "\<forall>r\<in>set path. length r = N"
  shows "intvar_normalized path =
           Inr (map (\<lambda>k. \<Sum>t\<le>n. spec_weight n t / real n * (path ! t ! k)\<^sup>2) [0..<N])"
proof -
  obtain r0 rest where path: "path = r0 # rest" using len by (cases path) simp_all
  have r0: "length r0 = N" using rows path by simp
  have tw: "trapz_weight (length path) = map (spec_weight n) [0..<Suc n]"
    unfolding len by (rule trapz_weight_spec[OF n])
  have s: "sum_list (map (spec_weight n) [0..<Suc n]) = real n"
    by (simp only: sum_list_upt_atMost sum_spec_weight[OF n])
  have w: "map (\<lambda>w. w / sum_list (trapz_weight (length path))) (trapz_weight (length path))
             = map (\<lambda>t. spec_weight n t / real n) [0..<Suc n]"
    unfolding tw s by (simp del: upt_Suc)
  have p: "path = map (\<lambda>t. path ! t) [0..<Suc n]"
    using map_nth[of path] len by simp
  have col: "\<And>k. sum_list (map2 (\<lambda>w row. w * (row ! k)\<^sup>2)
                 (map (\<lambda>t. spec_weight n t / real n) [0..<Suc n]) path)
               = (\<Sum>t\<le>n. spec_weight n t / real n * (path ! t ! k)\<^sup>2)"
  proof -
    fix k
    have "map2 (\<lambda>w row. w * (row ! k)\<^sup>2) (map (\<lambda>t. spec_weight n t / real n) [0..<Suc n]) path
        = map2 (\<lambda>w row. w * (row ! k)\<^sup>2) (map (\<lambda>t. spec_weight n t / real n) [0..<Suc n])
            (map (\<lambda>t. path ! t) [0..<Suc n])"
      using p by simp
    also have "\<dots> = map (\<lambda>t. spec_weight n t / real n * (path ! t ! k)\<^sup>2) [0..<Suc n]"
      by (rule map2_same_upt)
    finally show "sum_list (map2 (\<lambda>w row. w * (row ! k)\<^sup>2)
                 (map (\<lambda>t. spec_weight n t / real n) [0..<Suc n]) path)
               = (\<Sum>t\<le>n. spec_weight n t / real n * (path ! t ! k)\<^sup>2)"
      by (simp only: sum_list_upt_atMost)
  qed
  have "intvar_normalized path =
      Inr (map (\<lambda>k. sum_list (map2 (\<lambda>w row. w * (row ! k)\<^sup>2)
                 (map (\<lambda>t. spec_weight n t / real n) [0..<Suc n]) path)) [0..<N])"
    unfolding intvar_normalized_def Let_def w using path r0 by simp
  then show ?thesis by (simp only: col)
qed

lemma spec_weight_nonneg: "0 \<le> spec_weight n t"
  by (simp add: spec_weight_def)

lemma sigma_path_wf:
  assumes "0 < texp" and "0 < dt m"
  shows "\<exists>p. sigma_path m g texp = Inr p
           \<and> length p = nat \<lceil>float_div texp (dt m)\<rceil> + 1
           \<and> (\<forall>r\<in>set p. length r = n_path m)
           \<and> p ! 0 = replicate (n_path m) 1
           \<and> length (tobs_grid \<lceil>float_div texp (dt m)\<rceil> texp) = nat \<lceil>float_div texp (dt m)\<rceil>
           \<and> (\<forall>i<nat \<lceil>float_div texp (dt m)\<rceil>.
                  tobs_grid \<lceil>float_div texp (dt m)\<rceil> texp ! i
                    = real (Suc i) * (texp / real_of_int \<lceil>float_div texp (dt m)\<rceil>))
           \<and> last (tobs_grid \<lceil>float_div texp (dt m)\<rceil> texp) = texp"
proof -
  define n where "n = \<lceil>float_div texp (dt m)\<rceil>"
  have pos: "0 < n" unfolding n_def using assms by (rule n_dt_pos)
  define Zs where "Zs = map (map (\<lambda>z. z * sqrt (texp / real_of_int n)))
                  (map (\<lambda>t. map (\<lambda>k. g t k) [0..<n_path m]) [0..<nat n])"
  define body where "body = map2 (\<lambda>row tb. map (\<lambda>x. exp (vov m * (x - vov m / 2 * tb))) row)
            (cumsum0 (n_path m) Zs) (tobs_grid n texp)"
  have eq: "sigma_path m g texp = Inr (replicate (n_path m) 1 # body)"
    unfolding body_def Zs_def n_def by (rule sigma_path_ok[OF assms])
  have lenZ: "length Zs = nat n" by (simp add: Zs_def)
  have rowsZ: "\<forall>r\<in>set Zs. length r = n_path m" by (auto simp: Zs_def)
  have lenC: "length (cumsum0 (n_path m) Zs) = nat n"
    by (simp add: cumsum0_def length_cumsum_from lenZ)
  have rowsC: "\<forall>r\<in>set (cumsum0 (n_path m) Zs). length r = n_path m"
    unfolding cumsum0_def by (rule rows_cumsum_from[OF _ rowsZ]) simp
  have len: "length body = nat n"
    by (simp add: body_def lenC length_tobs_grid)
  have rows: "\<forall>r\<in>set body. length r = n_path m"
    using rowsC unfolding body_def by (auto dest: set_zip_leftD)
  have grid: "\<forall>i<nat n. tobs_grid n texp ! i = real (Suc i) * (texp / real_of_int n)"
    by (simp add: nth_tobs_grid)
  show ?thesis
    unfolding n_def[symmetric]
    using eq len rows grid last_tobs_grid[OF pos, of texp] length_tobs_grid[of n texp]
    by simp
qed

lemma nth_cumsum_from:
  assumes "\<forall>r\<in>set rows. length r = N" and "length acc = N" and "i < length rows" and "k < N"
  shows "cumsum_from acc rows ! i ! k = acc ! k + (\<Sum>s\<le>i. rows ! s ! k)"
  using assms
proof (induction rows arbitrary: acc i)
  case Nil
  then show ?case by simp
next
  case (Cons r rs)
  define a where "a = map2 (+) acc r"
  have la: "length a = N" using Cons.prems by (simp add: a_def)
  have ak: "a ! k = acc ! k + r ! k" using Cons.prems by (simp add: a_def)
  have c: "cumsum_from acc (r # rs) = a # cumsum_from a rs" by (simp add: a_def Let_def)
  show ?case
  proof (cases i)
    case 0
    show ?thesis unfolding 0 c by (simp add: ak)
  next
    case (Suc j)
    have "cumsum_from a rs ! j ! k = a ! k + (\<Sum>s\<le>j. rs ! s ! k)"
      using Cons.prems Suc la by (intro Cons.IH) simp_all
    then show ?thesis
      unfolding c Suc by (simp add: ak sum.atMost_Suc_shift del: sum.atMost_Suc)
  qed
qed

lemma sigma_path_entries:
  assumes "0 < texp" and "0 < dt m"
  shows "\<exists>p. sigma_path m g texp = Inr p
           \<and> (\<forall>i<nat \<lceil>float_div texp (dt m)\<rceil>. \<forall>k<n_path m.
                 p ! Suc i ! k
                   = exp (vov m * ((\<Sum>s\<le>i. g s k * sqrt (texp / real_of_int \<lceil>float_div texp (dt m)\<rceil>))
                                   - vov m / 2 * (tobs_grid \<lceil>float_div texp (dt m)\<rceil> texp ! i))))"
proof -
  define n where "n = \<lceil>float_div texp (dt m)\<rceil>"
  define N where "N = n_path m"
  define Zs where "Zs = map (map (\<lambda>z. z * sqrt (texp / real_of_int n)))
                  (map (\<lambda>t. map (\<lambda>k. g t k) [0..<N]) [0..<nat n])"
  define body where "body = map2 (\<lambda>row tb. map (\<lambda>x. exp (vov m * (x - vov m / 2 * tb))) row)
            (cumsum0 N Zs) (tobs_grid n texp)"
  have eq: "sigma_path m g texp = Inr (replicate N 1 # body)"
    unfolding body_def Zs_def n_def N_def by (rule sigma_path_ok[OF assms])
  have lenZ: "length Zs = nat n" by (simp add: Zs_def)
  have rowsZ: "\<forall>r\<in>set Zs. length r = N" by (auto simp: Zs_def)
  have lenC: "length (cumsum0 N Zs) = nat n"
    by (simp add: cumsum0_def length_cumsum_from lenZ)
  have rowsC: "\<forall>r\<in>set (cumsum0 N Zs). length r = N"
    unfolding cumsum0_def by (rule rows_cumsum_from[OF _ rowsZ]) simp
  have entry: "body ! i ! k
      = exp (vov m * ((\<Sum>s\<le>i. g s k * sqrt (texp / real_of_int n))
                      - vov m / 2 * (tobs_grid n texp ! i)))"
    if i: "i < nat n" and k: "k < N" for i k
  proof -
    have Z: "Zs ! s ! k = g s k * sqrt (texp / real_of_int n)" if "s \<le> i" for s
      using that i k by (simp add: Zs_def)
    have "cumsum0 N Zs ! i ! k = replicate N 0 ! k + (\<Sum>s\<le>i. Zs ! s ! k)"
      unfolding cumsum0_def using rowsZ i k lenZ by (intro nth_cumsum_from) simp_all
    also have "\<dots> = (\<Sum>s\<le>i. g s k * sqrt (texp / real_of_int n))"
      using k Z by simp
    finally have C: "cumsum0 N Zs ! i ! k = (\<Sum>s\<le>i. g s k * sqrt (texp / real_of_int n))" .
    have "cumsum0 N Zs ! i \<in> set (cumsum0 N Zs)" using i lenC by simp
    with rowsC have lr: "length (cumsum0 N Zs ! i) = N" by blast
    have "body ! i = map (\<lambda>x. exp (vov m * (x - vov m / 2 * (tobs_grid n texp ! i))))
                       (cumsum0 N Zs ! i)"
      unfolding body_def using i lenC length_tobs_grid[of n texp] by simp
    then show ?thesis using k lr C by simp
  qed
  show ?thesis
    unfolding n_def[symmetric] N_def[symmetric] eq using entry by simp
qed

section \<open>The path generator and the variance aggregator\<close>

text \<open>Claim C7. For a maturity \<open>texp > 0\<close> and a time step \<open>dt > 0\<close>, \<open>sigma_path\<close>
  returns an array with \<open>n_steps + 1\<close> rows, each of \<open>n_path\<close> entries, where
  \<open>n_steps\<close> is the ceiling of the quotient \<open>texp / dt\<close> as Python computes it. The row
  at time index 0 is 1 for every trajectory. The row at time index \<open>i + 1\<close> is the
  exponential of \<open>vov\<close> times the sum of the first \<open>i + 1\<close> draws, each scaled by the
  square root of the step \<open>texp / n_steps\<close>, less \<open>vov / 2\<close> times the \<open>i\<close>-th point of the
  observation grid; the grid has \<open>n_steps\<close> points, the \<open>i\<close>-th of them \<open>i + 1\<close> times
  the step \<open>texp / n_steps\<close>, and ends at \<open>texp\<close>.\<close>

theorem sigma_path_shape:
  assumes "0 < texp" and "0 < dt m"
  shows "\<exists>p. sigma_path m g texp = Inr p
           \<and> length p = nat \<lceil>float_div texp (dt m)\<rceil> + 1
           \<and> (\<forall>r\<in>set p. length r = n_path m)
           \<and> p ! 0 = replicate (n_path m) 1
           \<and> (\<forall>i<nat \<lceil>float_div texp (dt m)\<rceil>. \<forall>k<n_path m.
                 p ! Suc i ! k
                   = exp (vov m * ((\<Sum>s\<le>i. g s k * sqrt (texp / real_of_int \<lceil>float_div texp (dt m)\<rceil>))
                                   - vov m / 2 * (tobs_grid \<lceil>float_div texp (dt m)\<rceil> texp ! i))))
           \<and> length (tobs_grid \<lceil>float_div texp (dt m)\<rceil> texp) = nat \<lceil>float_div texp (dt m)\<rceil>
           \<and> (\<forall>i<nat \<lceil>float_div texp (dt m)\<rceil>.
                  tobs_grid \<lceil>float_div texp (dt m)\<rceil> texp ! i
                    = real (Suc i) * (texp / real_of_int \<lceil>float_div texp (dt m)\<rceil>))
           \<and> last (tobs_grid \<lceil>float_div texp (dt m)\<rceil> texp) = texp"
proof -
  obtain p where p: "sigma_path m g texp = Inr p"
    and shape: "length p = nat \<lceil>float_div texp (dt m)\<rceil> + 1"
      "\<forall>r\<in>set p. length r = n_path m" "p ! 0 = replicate (n_path m) 1"
    and grid: "length (tobs_grid \<lceil>float_div texp (dt m)\<rceil> texp) = nat \<lceil>float_div texp (dt m)\<rceil>"
      "\<forall>i<nat \<lceil>float_div texp (dt m)\<rceil>.
                  tobs_grid \<lceil>float_div texp (dt m)\<rceil> texp ! i
                    = real (Suc i) * (texp / real_of_int \<lceil>float_div texp (dt m)\<rceil>)"
      "last (tobs_grid \<lceil>float_div texp (dt m)\<rceil> texp) = texp"
    using sigma_path_wf[OF assms, of g] by blast
  obtain p' where p': "sigma_path m g texp = Inr p'"
    and entries: "\<forall>i<nat \<lceil>float_div texp (dt m)\<rceil>. \<forall>k<n_path m.
                 p' ! Suc i ! k
                   = exp (vov m * ((\<Sum>s\<le>i. g s k * sqrt (texp / real_of_int \<lceil>float_div texp (dt m)\<rceil>))
                                   - vov m / 2 * (tobs_grid \<lceil>float_div texp (dt m)\<rceil> texp ! i)))"
    using sigma_path_entries[OF assms, of g] by blast
  from p p' have "p' = p" by simp
  with p shape grid entries show ?thesis by blast
qed

theorem sigma_path_shape_witness:
  "\<exists>p. sigma_path \<lparr>sigma = 2, vov = 1, rho = 0, beta = 1, intr = 0,
                    dt = 3602879701896397 / 36028797018963968, n_path = 2\<rparr>
          (const_draws 0) (2476979795053773 / 2251799813685248) = Inr p
      \<and> length p = 12 \<and> p ! 0 = [1, 1]
      \<and> last (tobs_grid 11 (2476979795053773 / 2251799813685248))
           = 2476979795053773 / 2251799813685248"
proof -
  have "\<exists>p. sigma_path \<lparr>sigma = 2, vov = 1, rho = 0, beta = 1, intr = 0,
                    dt = 3602879701896397 / 36028797018963968, n_path = 2\<rparr>
          (const_draws 0) (2476979795053773 / 2251799813685248) = Inr p
      \<and> length p = nat \<lceil>float_div (2476979795053773 / 2251799813685248)
                          (3602879701896397 / 36028797018963968)\<rceil> + 1
      \<and> p ! 0 = replicate 2 1
      \<and> last (tobs_grid \<lceil>float_div (2476979795053773 / 2251799813685248)
                               (3602879701896397 / 36028797018963968)\<rceil>
                 (2476979795053773 / 2251799813685248))
           = 2476979795053773 / 2251799813685248"
    using sigma_path_shape [where texp = "2476979795053773 / 2251799813685248"
      and m = "\<lparr>sigma = 2, vov = 1, rho = 0, beta = 1, intr = 0,
                    dt = 3602879701896397 / 36028797018963968, n_path = 2\<rparr>"
      and g = "const_draws 0"]
    by auto
  then show ?thesis
    unfolding float_div_11 by (simp add: numeral_2_eq_2)
qed

text \<open>Claim C8. For a path with \<open>n + 1\<close> rows, \<open>n \<ge> 1\<close>, each of \<open>N\<close> entries,
  \<open>intvar_normalized\<close> returns \<open>N\<close> entries, the \<open>k\<close>-th the sum over the time indices
  \<open>t\<close> of weight times the square of the path at \<open>(t, k)\<close>, the weights one half at both
  ends and one between, divided by their sum, which is \<open>n\<close>; every entry is not
  negative; for \<open>n = 1\<close> the normalized weights are one half and one half.\<close>

theorem intvar_normalized_trapezoid:
  assumes "length path = Suc n" and "1 \<le> n" and "\<forall>r\<in>set path. length r = N"
  shows "\<exists>v. intvar_normalized path = Inr v \<and> length v = N
           \<and> (\<forall>k<N. v ! k = (\<Sum>t\<le>n. spec_weight n t / real n * (path ! t ! k)\<^sup>2) \<and> 0 \<le> v ! k)
           \<and> (\<Sum>t\<le>n. spec_weight n t) = real n
           \<and> (n = 1 \<longrightarrow>
                map (\<lambda>w. w / sum_list (trapz_weight (length path))) (trapz_weight (length path))
                  = [1/2, 1/2])"
proof -
  have eq: "intvar_normalized path =
           Inr (map (\<lambda>k. \<Sum>t\<le>n. spec_weight n t / real n * (path ! t ! k)\<^sup>2) [0..<N])"
    using assms by (rule intvar_normalized_eq)
  have nonneg: "\<And>k. 0 \<le> (\<Sum>t\<le>n. spec_weight n t / real n * (path ! t ! k)\<^sup>2)"
    by (intro sum_nonneg mult_nonneg_nonneg divide_nonneg_nonneg spec_weight_nonneg) simp_all
  have one: "n = 1 \<longrightarrow>
      map (\<lambda>w. w / sum_list (trapz_weight (length path))) (trapz_weight (length path)) = [1/2, 1/2]"
    using assms(1) by (simp add: trapz_weight_def)
  show ?thesis
    using eq nonneg one sum_spec_weight[OF assms(2)] by simp
qed

theorem intvar_normalized_trapezoid_witness:
  "length [[1], [3::real]] = Suc 1 \<and> (1::nat) \<le> 1 \<and> length [1::real] = 1 \<and> length [3::real] = 1
   \<and> (\<exists>v. intvar_normalized [[1], [3]] = Inr v \<and> length v = 1 \<and> v ! 0 = 5 \<and> 0 \<le> v ! 0)"
  using intvar_normalized_trapezoid [of "[[1], [3]]" 1 1]
  by (auto simp: spec_weight_def)

lemma direct_paths_neg:
  "dt m \<noteq> 0 \<Longrightarrow> \<lceil>float_div texp (dt m)\<rceil> < 0 \<Longrightarrow> direct_paths m gW gZ texp = Inl ValueError"
  by (simp add: direct_paths_def standard_normal_def Let_def)

lemma direct_paths_ok:
  assumes "dt m \<noteq> 0" and "0 \<le> \<lceil>float_div texp (dt m)\<rceil>"
  shows "\<exists>W sigma_t. direct_paths m gW gZ texp = Inr (nat \<lceil>float_div texp (dt m)\<rceil>, W, sigma_t)"
proof -
  define n where "n = \<lceil>float_div texp (dt m)\<rceil>"
  have n: "\<not> n < 0" using assms(2) by (simp add: n_def)
  show ?thesis
    unfolding direct_paths_def Let_def n_def[symmetric] standard_normal_def
    using assms(1) n by simp
qed

lemma length_BsmMC_S_T: "length (BsmMC_S_T m n W s spot) = n_path m"
  by (simp add: BsmMC_S_T_def)

lemma length_NormalMC_S_T: "length (NormalMC_S_T m n W s spot) = n_path m"
  by (simp add: NormalMC_S_T_def)

lemma ModelBsmMC_S_T_ok:
  assumes "dt m \<noteq> 0" and "0 \<le> \<lceil>float_div texp (dt m)\<rceil>"
  shows "\<exists>S. ModelBsmMC_S_T m gW gZ spot texp = Inr S \<and> length S = n_path m"
  using direct_paths_ok[OF assms, of gW gZ]
  by (auto simp: ModelBsmMC_S_T_def length_BsmMC_S_T)

lemma ModelNormalMC_S_T_ok:
  assumes "dt m \<noteq> 0" and "0 \<le> \<lceil>float_div texp (dt m)\<rceil>"
  shows "\<exists>S. ModelNormalMC_S_T m gW gZ spot texp = Inr S \<and> length S = n_path m"
  using direct_paths_ok[OF assms, of gW gZ]
  by (auto simp: ModelNormalMC_S_T_def length_NormalMC_S_T)

lemma mean_nonneg: "\<forall>x\<in>set xs. 0 \<le> x \<Longrightarrow> 0 \<le> mean xs"
  by (simp add: mean_def sum_list_nonneg)

lemma payoff_price_nonneg: "x \<in> set (payoff_price m S strike texp cp) \<Longrightarrow> 0 \<le> x"
  by (auto simp: payoff_price_def Let_def fmax_def intro!: mult_nonneg_nonneg mean_nonneg)

lemma length_payoff_price: "length (payoff_price m S strike texp cp) = length strike"
  by (simp add: payoff_price_def Let_def)

lemma payoff_parity_mean:
  assumes "S \<noteq> []"
  shows "mean (map (\<lambda>s. fmax (1 * (s - K)) 0) S) - mean (map (\<lambda>s. fmax (- 1 * (s - K)) 0) S)
           = mean S - K"
proof -
  have pt: "\<And>s. fmax (1 * (s - K)) 0 - fmax (- 1 * (s - K)) 0 = s - K"
    by (simp add: fmax_def max_def)
  have "sum_list (map (\<lambda>s. fmax (1 * (s - K)) 0) S) - sum_list (map (\<lambda>s. fmax (- 1 * (s - K)) 0) S)
          = sum_list (map (\<lambda>s. fmax (1 * (s - K)) 0 - fmax (- 1 * (s - K)) 0) S)"
    by (simp only: sum_list_subtractf)
  also have "\<dots> = sum_list (map (\<lambda>s. s - K) S)" by (simp only: pt)
  also have "\<dots> = sum_list S - real (length S) * K"
    by (induction S) (simp_all add: algebra_simps)
  finally have "sum_list (map (\<lambda>s. fmax (1 * (s - K)) 0) S)
                  - sum_list (map (\<lambda>s. fmax (- 1 * (s - K)) 0) S)
                = sum_list S - real (length S) * K" .
  then have "(sum_list (map (\<lambda>s. fmax (1 * (s - K)) 0) S)
                  - sum_list (map (\<lambda>s. fmax (- 1 * (s - K)) 0) S)) / real (length S)
                = (sum_list S - real (length S) * K) / real (length S)" by simp
  then show ?thesis using assms by (simp add: mean_def diff_divide_distrib)
qed

lemma payoff_price_parity:
  assumes "S \<noteq> []" and "k < length strike"
  shows "payoff_price m S strike texp 1 ! k - payoff_price m S strike texp (- 1) ! k
           = exp (- intr m * texp) * (mean S - strike ! k)"
proof -
  have "payoff_price m S strike texp 1 ! k - payoff_price m S strike texp (- 1) ! k
      = exp (- intr m * texp) * (mean (map (\<lambda>s. fmax (1 * (s - strike ! k)) 0) S)
           - mean (map (\<lambda>s. fmax (- 1 * (s - strike ! k)) 0) S))"
    using assms(2) by (simp add: payoff_price_def Let_def right_diff_distrib)
  then show ?thesis by (simp only: payoff_parity_mean[OF assms(1)])
qed

section \<open>The direct pricers\<close>

text \<open>Claim C10. For a maturity \<open>texp > 0\<close> (with \<open>dt > 0\<close> and at least one
  trajectory), whatever the strikes, the spot, the flag \<open>cp\<close> and the draws, both
  direct pricers return one price per strike and every price is not negative.\<close>

theorem direct_price_nonneg:
  assumes "0 < texp" and "0 < dt m" and "0 < n_path m"
  shows "(\<exists>p. ModelBsmMC_price m gW gZ strike spot texp cp = Inr p
              \<and> length p = length strike \<and> (\<forall>x\<in>set p. 0 \<le> x))
       \<and> (\<exists>p. ModelNormalMC_price m gW gZ strike spot texp cp = Inr p
              \<and> length p = length strike \<and> (\<forall>x\<in>set p. 0 \<le> x))"
proof -
  have d: "dt m \<noteq> 0" using assms(2) by simp
  have n: "0 \<le> \<lceil>float_div texp (dt m)\<rceil>" using n_dt_pos[OF assms(1,2)] by linarith
  obtain S where S: "ModelBsmMC_S_T m gW gZ spot texp = Inr S"
    using ModelBsmMC_S_T_ok[OF d n] by blast
  obtain S' where S': "ModelNormalMC_S_T m gW gZ spot texp = Inr S'"
    using ModelNormalMC_S_T_ok[OF d n] by blast
  show ?thesis
    by (simp add: ModelBsmMC_price_def ModelNormalMC_price_def S S' length_payoff_price
        payoff_price_nonneg)
qed

theorem direct_price_nonneg_witness:
  "(\<exists>p. ModelBsmMC_price \<lparr>sigma = 1, vov = 0, rho = 0, beta = 1, intr = 0, dt = 4, n_path = 1\<rparr>
           (\<lambda>t k. 1) (\<lambda>t k. 0) [1, 2] 1 6 1 = Inr p
        \<and> length p = length [1, 2::real] \<and> (\<forall>x\<in>set p. 0 \<le> x))
   \<and> (\<exists>p. ModelNormalMC_price \<lparr>sigma = 1, vov = 0, rho = 0, beta = 1, intr = 0, dt = 4, n_path = 1\<rparr>
           (\<lambda>t k. 1) (\<lambda>t k. 0) [1, 2] 1 6 1 = Inr p
        \<and> length p = length [1, 2::real] \<and> (\<forall>x\<in>set p. 0 \<le> x))"
  using direct_price_nonneg [of 6
      "\<lparr>sigma = 1, vov = 0, rho = 0, beta = 1, intr = 0, dt = 4, n_path = 1\<rparr>"
      "\<lambda>t k. 1" "\<lambda>t k. 0" "[1, 2]" 1 1]
  by simp

text \<open>Claim C9. Put-call parity of the direct pricers: with the same strikes, spot,
  maturity and draws, the price with \<open>cp = 1\<close> minus the price with \<open>cp = -1\<close> is,
  strike by strike, the discount factor \<open>exp(-intr * texp)\<close> times the mean terminal
  spot minus the strike. The spot is positive and the correlation within \<open>[-1, 1]\<close>,
  so that the logarithm and the square root of the source are taken of numbers that
  have one.\<close>

theorem direct_put_call_parity:
  assumes "0 < texp" and "0 < dt m" and "0 < n_path m" and "0 < spot" and "\<bar>rho m\<bar> \<le> 1"
  shows "(\<exists>c p S. ModelBsmMC_price m gW gZ strike spot texp 1 = Inr c
              \<and> ModelBsmMC_price m gW gZ strike spot texp (- 1) = Inr p
              \<and> ModelBsmMC_S_T m gW gZ spot texp = Inr S
              \<and> length c = length strike \<and> length p = length strike
              \<and> (\<forall>k<length strike.
                    c ! k - p ! k = exp (- intr m * texp) * (mean S - strike ! k)))
       \<and> (\<exists>c p S. ModelNormalMC_price m gW gZ strike spot texp 1 = Inr c
              \<and> ModelNormalMC_price m gW gZ strike spot texp (- 1) = Inr p
              \<and> ModelNormalMC_S_T m gW gZ spot texp = Inr S
              \<and> length c = length strike \<and> length p = length strike
              \<and> (\<forall>k<length strike.
                    c ! k - p ! k = exp (- intr m * texp) * (mean S - strike ! k)))"
proof -
  have d: "dt m \<noteq> 0" using assms(2) by simp
  have n: "0 \<le> \<lceil>float_div texp (dt m)\<rceil>" using n_dt_pos[OF assms(1,2)] by linarith
  obtain S where S: "ModelBsmMC_S_T m gW gZ spot texp = Inr S" and lS: "length S = n_path m"
    using ModelBsmMC_S_T_ok[OF d n] by blast
  obtain S' where S': "ModelNormalMC_S_T m gW gZ spot texp = Inr S'" and lS': "length S' = n_path m"
    using ModelNormalMC_S_T_ok[OF d n] by blast
  have ne: "S \<noteq> []" "S' \<noteq> []" using lS lS' assms(3) by auto
  show ?thesis
    by (simp add: ModelBsmMC_price_def ModelNormalMC_price_def S S' length_payoff_price
        payoff_price_parity[OF ne(1)] payoff_price_parity[OF ne(2)])
qed

theorem direct_put_call_parity_witness:
  "(\<exists>c p S. ModelBsmMC_price \<lparr>sigma = 1, vov = 0, rho = 0, beta = 1, intr = 0, dt = 4, n_path = 1\<rparr>
           (\<lambda>t k. 1) (\<lambda>t k. 0) [1, 2] 1 6 1 = Inr c
        \<and> ModelBsmMC_price \<lparr>sigma = 1, vov = 0, rho = 0, beta = 1, intr = 0, dt = 4, n_path = 1\<rparr>
           (\<lambda>t k. 1) (\<lambda>t k. 0) [1, 2] 1 6 (- 1) = Inr p
        \<and> ModelBsmMC_S_T \<lparr>sigma = 1, vov = 0, rho = 0, beta = 1, intr = 0, dt = 4, n_path = 1\<rparr>
           (\<lambda>t k. 1) (\<lambda>t k. 0) 1 6 = Inr S
        \<and> c ! 0 - p ! 0 = mean S - 1 \<and> c ! 1 - p ! 1 = mean S - 2)
   \<and> (\<exists>c p S. ModelNormalMC_price \<lparr>sigma = 1, vov = 0, rho = 0, beta = 1, intr = 0, dt = 4, n_path = 1\<rparr>
           (\<lambda>t k. 1) (\<lambda>t k. 0) [1, 2] 1 6 1 = Inr c
        \<and> ModelNormalMC_price \<lparr>sigma = 1, vov = 0, rho = 0, beta = 1, intr = 0, dt = 4, n_path = 1\<rparr>
           (\<lambda>t k. 1) (\<lambda>t k. 0) [1, 2] 1 6 (- 1) = Inr p
        \<and> ModelNormalMC_S_T \<lparr>sigma = 1, vov = 0, rho = 0, beta = 1, intr = 0, dt = 4, n_path = 1\<rparr>
           (\<lambda>t k. 1) (\<lambda>t k. 0) 1 6 = Inr S
        \<and> c ! 0 - p ! 0 = mean S - 1 \<and> c ! 1 - p ! 1 = mean S - 2)"
  using direct_put_call_parity [where texp = 6
      and m = "\<lparr>sigma = 1, vov = 0, rho = 0, beta = 1, intr = 0, dt = 4, n_path = 1\<rparr>"
      and gW = "\<lambda>t k. 1" and gZ = "\<lambda>t k. 0" and strike = "[1, 2]" and spot = 1]
  apply (simp add: less_Suc_eq imp_disjL all_conj_distrib)
  apply (erule conjE)
  apply (elim exE conjE)
  apply (rule conjI)
   apply (simp add: numeral_2_eq_2)
  apply (simp add: numeral_2_eq_2)
  done

lemma direct_paths_at_6:
  "direct_paths \<lparr>sigma = 1, vov = 1, rho = 0, beta = 1, intr = 0, dt = 4, n_path = 1\<rparr>
     (\<lambda>t k. 1) (\<lambda>t k. 1) 6
   = Inr (2, [[1], [1]], [[1], [exp (sqrt 4 - 3 / 2)], [exp (2 * sqrt 4 - 3)]])"
  by (simp add: direct_paths_def standard_normal_def tobs_grid_def cumsum0_def Let_def
        upto_rec1 numeral_2_eq_2 float_div_values)

lemma sqrt3_ne: "sqrt 3 \<noteq> 2"
proof
  assume "sqrt 3 = 2"
  then have "(sqrt 3)\<^sup>2 = 2\<^sup>2" by simp
  then show False by simp
qed

lemma sqrt3_ne': "sqrt 3 \<noteq> 3 / 2"
proof
  assume a: "sqrt 3 = 3 / 2"
  have "(sqrt 3)\<^sup>2 = 3" by simp
  then have "(3 / 2 :: real)\<^sup>2 = 3" unfolding a .
  then show False by (simp add: power2_eq_square)
qed

text \<open>Claim C2. With maturity 6 and \<open>dt = 4\<close> there are \<open>ceil(6/4) = 2\<close> steps and
  the effective step is 3. The direct pricers nevertheless scale the volatility
  increments by \<open>sqrt 4\<close>, and the spot increments and the correction of the log-normal
  variant by \<open>sqrt 4\<close> and 4: with all draws 1 the volatility path is
  \<open>exp (sqrt 4 - 3/2)\<close>, \<open>exp (2 sqrt 4 - 3)\<close>, and with constant volatility 1 the
  terminal spot is \<open>2 sqrt 4\<close> (normal) and \<open>exp (2 (sqrt 4 - 4/2))\<close> (log-normal);
  none of them is the value the step 3 gives.\<close>

theorem direct_pricers_use_nominal_dt:
  "spec_step \<lparr>sigma = 1, vov = 1, rho = 0, beta = 1, intr = 0, dt = 4, n_path = 1\<rparr> 6 = 3
   \<and> direct_paths \<lparr>sigma = 1, vov = 1, rho = 0, beta = 1, intr = 0, dt = 4, n_path = 1\<rparr>
         (\<lambda>t k. 1) (\<lambda>t k. 1) 6
       = Inr (2, [[1], [1]], [[1], [exp (sqrt 4 - 3 / 2)], [exp (2 * sqrt 4 - 3)]])
   \<and> direct_paths \<lparr>sigma = 1, vov = 1, rho = 0, beta = 1, intr = 0, dt = 4, n_path = 1\<rparr>
         (\<lambda>t k. 1) (\<lambda>t k. 1) 6
       \<noteq> Inr (2, [[1], [1]], [[1], [exp (sqrt 3 - 3 / 2)], [exp (2 * sqrt 3 - 3)]])
   \<and> ModelNormalMC_S_T \<lparr>sigma = 1, vov = 0, rho = 0, beta = 0, intr = 0, dt = 4, n_path = 1\<rparr>
         (\<lambda>t k. 1) (\<lambda>t k. 0) 0 6 = Inr [2 * sqrt 4]
   \<and> ModelNormalMC_S_T \<lparr>sigma = 1, vov = 0, rho = 0, beta = 0, intr = 0, dt = 4, n_path = 1\<rparr>
         (\<lambda>t k. 1) (\<lambda>t k. 0) 0 6 \<noteq> Inr [2 * sqrt 3]
   \<and> ModelBsmMC_S_T \<lparr>sigma = 1, vov = 0, rho = 0, beta = 1, intr = 0, dt = 4, n_path = 1\<rparr>
         (\<lambda>t k. 1) (\<lambda>t k. 0) 1 6 = Inr [exp (2 * (sqrt 4 - 4 / 2))]
   \<and> ModelBsmMC_S_T \<lparr>sigma = 1, vov = 0, rho = 0, beta = 1, intr = 0, dt = 4, n_path = 1\<rparr>
         (\<lambda>t k. 1) (\<lambda>t k. 0) 1 6 \<noteq> Inr [exp (2 * (sqrt 3 - 3 / 2))]"
proof -
  have step: "spec_step \<lparr>sigma = 1, vov = 1, rho = 0, beta = 1, intr = 0, dt = 4, n_path = 1\<rparr> 6 = 3"
    by (simp add: spec_step_def float_div_values)
  have p0: "\<And>b. direct_paths \<lparr>sigma = 1, vov = 0, rho = 0, beta = b, intr = 0, dt = 4, n_path = 1\<rparr>
             (\<lambda>t k. 1) (\<lambda>t k. 0) 6 = Inr (2, [[1], [1]], [[1], [1], [1]])"
    by (simp add: direct_paths_def standard_normal_def tobs_grid_def cumsum0_def Let_def
        upto_rec1 numeral_2_eq_2 float_div_values)
  have n: "ModelNormalMC_S_T \<lparr>sigma = 1, vov = 0, rho = 0, beta = 0, intr = 0, dt = 4, n_path = 1\<rparr>
         (\<lambda>t k. 1) (\<lambda>t k. 0) 0 6 = Inr [4]"
    unfolding ModelNormalMC_S_T_def p0 by (simp add: NormalMC_S_T_def numeral_2_eq_2)
  have b: "ModelBsmMC_S_T \<lparr>sigma = 1, vov = 0, rho = 0, beta = 1, intr = 0, dt = 4, n_path = 1\<rparr>
         (\<lambda>t k. 1) (\<lambda>t k. 0) 1 6 = Inr [1]"
    unfolding ModelBsmMC_S_T_def p0 by (simp add: BsmMC_S_T_def numeral_2_eq_2)
  have e: "exp (2 * (sqrt 3 - 3 / 2)) \<noteq> (1::real)"
    using sqrt3_ne' by simp
  show ?thesis
    unfolding direct_paths_at_6 n b using step sqrt3_ne sqrt3_ne' e by simp
qed

section \<open>The conditional pricers\<close>

lemma sigma_path_dt0: "dt m = 0 \<Longrightarrow> sigma_path m g texp = Inl ZeroDivisionError"
  by (simp add: sigma_path_def)

lemma sigma_path_n0:
  "\<lceil>float_div texp (dt m)\<rceil> = 0 \<Longrightarrow> sigma_path m g texp = Inl ZeroDivisionError"
  by (simp add: sigma_path_def Let_def)

lemma sigma_path_neg:
  assumes "dt m \<noteq> 0" and "\<lceil>float_div texp (dt m)\<rceil> < 0"
  shows "sigma_path m g texp = Inl IndexError"
proof -
  define n where "n = \<lceil>float_div texp (dt m)\<rceil>"
  have n: "n < 0" using assms(2) by (simp add: n_def)
  then have e: "tobs_grid n texp = []" by (simp add: tobs_grid_def)
  show ?thesis
    unfolding sigma_path_def Let_def n_def[symmetric] using assms(1) n e by simp
qed

lemma sigma_path_pos:
  assumes "dt m \<noteq> 0" and "0 < \<lceil>float_div texp (dt m)\<rceil>"
  shows "\<exists>body. sigma_path m g texp = Inr (replicate (n_path m) 1 # body)"
proof -
  define n where "n = \<lceil>float_div texp (dt m)\<rceil>"
  have pos: "0 < n" using assms(2) by (simp add: n_def)
  have ne: "tobs_grid n texp \<noteq> []"
    using pos length_tobs_grid[of n texp] by (cases "tobs_grid n texp") simp_all
  show ?thesis
    unfolding sigma_path_def Let_def n_def[symmetric] standard_normal_def
    using assms(1) pos ne last_tobs_grid[OF pos, of texp] by simp
qed

lemma sigma_path_error:
  assumes "dt m = 0 \<or> \<lceil>float_div texp (dt m)\<rceil> \<le> 0"
  shows "sigma_path m g texp
           = Inl (if dt m \<noteq> 0 \<and> \<lceil>float_div texp (dt m)\<rceil> < 0 then IndexError else ZeroDivisionError)"
proof (cases "dt m = 0")
  case True
  then show ?thesis by (simp add: sigma_path_dt0)
next
  case False
  show ?thesis
  proof (cases "\<lceil>float_div texp (dt m)\<rceil> = 0")
    case True
    then show ?thesis by (simp add: sigma_path_n0)
  next
    case n: False
    from assms False have "\<lceil>float_div texp (dt m)\<rceil> \<le> 0" by blast
    with n have neg: "\<lceil>float_div texp (dt m)\<rceil> < 0" by linarith
    have "sigma_path m g texp = Inl IndexError" using False neg by (rule sigma_path_neg)
    then show ?thesis using False neg by (simp only: if_True simp_thms)
  qed
qed

lemma intvar_normalized_Cons: "\<exists>I. intvar_normalized (r # rs) = Inr I"
  by (simp add: intvar_normalized_def Let_def)

lemma ModelBsmCondMC_equiv_vov0:
  assumes "vov m = 0"
  shows "ModelBsmCondMC_equiv m g spot texp
           = Inl (if dt m \<noteq> 0 \<and> \<lceil>float_div texp (dt m)\<rceil> < 0 then IndexError else ZeroDivisionError)"
proof (cases "dt m = 0 \<or> \<lceil>float_div texp (dt m)\<rceil> \<le> 0")
  case True
  then show ?thesis by (simp add: ModelBsmCondMC_equiv_def sigma_path_error)
next
  case False
  then have d: "dt m \<noteq> 0" and n: "0 < \<lceil>float_div texp (dt m)\<rceil>" by linarith+
  obtain body where p: "sigma_path m g texp = Inr (replicate (n_path m) 1 # body)"
    using sigma_path_pos[OF d n] by blast
  obtain I where I: "intvar_normalized (replicate (n_path m) 1 # body) = Inr I"
    using intvar_normalized_Cons by blast
  show ?thesis
    unfolding ModelBsmCondMC_equiv_def p using I assms n by (simp add: Let_def)
qed

lemma ModelNormalCondMC_equiv_vov0:
  assumes "vov m = 0"
  shows "ModelNormalCondMC_equiv m g spot texp
           = Inl (if dt m \<noteq> 0 \<and> \<lceil>float_div texp (dt m)\<rceil> < 0 then IndexError else ZeroDivisionError)"
proof (cases "dt m = 0 \<or> \<lceil>float_div texp (dt m)\<rceil> \<le> 0")
  case True
  then show ?thesis by (simp add: ModelNormalCondMC_equiv_def sigma_path_error)
next
  case False
  then have d: "dt m \<noteq> 0" and n: "0 < \<lceil>float_div texp (dt m)\<rceil>" by linarith+
  obtain body where p: "sigma_path m g texp = Inr (replicate (n_path m) 1 # body)"
    using sigma_path_pos[OF d n] by blast
  obtain I where I: "intvar_normalized (replicate (n_path m) 1 # body) = Inr I"
    using intvar_normalized_Cons by blast
  show ?thesis
    unfolding ModelNormalCondMC_equiv_def p using I assms n by (simp add: Let_def)
qed

text \<open>Claim C3. With \<open>vov = 0\<close> every call of a conditional pricer fails. The
  quotient \<open>self.rho / self.vov\<close> of two Python scalars raises \<open>ZeroDivisionError\<close>
  once the path is there, which is so for every maturity \<open>texp > 0\<close> (with \<open>dt > 0\<close>);
  where the path generator fails first it raises \<open>ZeroDivisionError\<close> as well, except
  for a maturity so negative that \<open>ceil(texp / dt) < 0\<close>, where it raises
  \<open>IndexError\<close>.\<close>

theorem cond_price_vov0_fails:
  assumes "vov m = 0"
  shows "ModelBsmCondMC_price pf m g strike spot texp cp
           = Inl (if dt m \<noteq> 0 \<and> \<lceil>float_div texp (dt m)\<rceil> < 0 then IndexError else ZeroDivisionError)
       \<and> ModelNormalCondMC_price pf m g strike spot texp cp
           = Inl (if dt m \<noteq> 0 \<and> \<lceil>float_div texp (dt m)\<rceil> < 0 then IndexError else ZeroDivisionError)"
  unfolding ModelBsmCondMC_price_def ModelNormalCondMC_price_def
    ModelBsmCondMC_equiv_vov0[OF assms] ModelNormalCondMC_equiv_vov0[OF assms]
  by simp

theorem cond_price_vov0_fails_witness:
  "ModelBsmCondMC_price pf_spot \<lparr>sigma = 1, vov = 0, rho = 0, beta = 1, intr = 0, dt = 1, n_path = 1\<rparr>
       (const_draws 0) [1] 1 1 1 = Inl ZeroDivisionError
   \<and> ModelNormalCondMC_price pf_spot \<lparr>sigma = 1, vov = 0, rho = 0, beta = 0, intr = 0, dt = 1, n_path = 1\<rparr>
       (const_draws 0) [1] 1 1 1 = Inl ZeroDivisionError"
  using cond_price_vov0_fails [of "\<lparr>sigma = 1, vov = 0, rho = 0, beta = 1, intr = 0, dt = 1, n_path = 1\<rparr>"
         pf_spot "const_draws 0" "[1]" 1 1 1]
    cond_price_vov0_fails [of "\<lparr>sigma = 1, vov = 0, rho = 0, beta = 0, intr = 0, dt = 1, n_path = 1\<rparr>"
         pf_spot "const_draws 0" "[1]" 1 1 1]
  by (simp add: float_div_values)

lemma base_model_invalid: "beta m \<noteq> 0 \<Longrightarrow> beta m \<noteq> 1 \<Longrightarrow> base_model m s = Inl ValueError"
  by (simp add: base_model_def Let_def)

lemma cond_price_invalid:
  "beta m \<noteq> 0 \<Longrightarrow> beta m \<noteq> 1 \<Longrightarrow> cond_price pf m vol se strike texp cp = Inl ValueError"
  by (simp add: cond_price_def base_model_invalid)

lemma cond_price_valid:
  assumes "beta m = 0 \<or> beta m = 1"
  shows "cond_price pf m vol se strike texp cp
           = Inr (map (\<lambda>K. mean (map2 (\<lambda>s v. pf (if beta m = 0 then Norm else Bsm) v (intr m) K s texp cp)
                                    se vol)) strike)"
  using assms by (auto simp: cond_price_def base_model_def base_price_def Let_def)

lemma ModelBsmCondMC_equiv_ok:
  assumes "0 < texp" and "0 < dt m" and "vov m \<noteq> 0"
  shows "\<exists>p I. sigma_path m g texp = Inr p \<and> intvar_normalized p = Inr I
            \<and> length (last p) = n_path m \<and> length I = n_path m
            \<and> ModelBsmCondMC_equiv m g spot texp
                = Inr (map (spec_vol_eff m) I,
                       map2 (\<lambda>x Ij. spec_spot_eq_lognormal m spot texp (sigma m * x) Ij) (last p) I)"
proof -
  define n where "n = nat \<lceil>float_div texp (dt m)\<rceil>"
  have pos: "0 < \<lceil>float_div texp (dt m)\<rceil>" using assms(1,2) by (rule n_dt_pos)
  then have n1: "1 \<le> n" unfolding n_def by linarith
  obtain p where p: "sigma_path m g texp = Inr p" and len: "length p = Suc n"
    and rows: "\<forall>r\<in>set p. length r = n_path m"
    using sigma_path_wf[OF assms(1,2), of g] unfolding n_def by auto
  have ne: "p \<noteq> []" using len by (cases p) simp_all
  then have "last p \<in> set p" by simp
  with rows have lastlen: "length (last p) = n_path m" by blast
  define I where "I = map (\<lambda>k. \<Sum>t\<le>n. spec_weight n t / real n * (p ! t ! k)\<^sup>2) [0..<n_path m]"
  have I: "intvar_normalized p = Inr I"
    unfolding I_def using len n1 rows by (rule intvar_normalized_eq)
  have lenI: "length I = n_path m" by (simp add: I_def)
  have "ModelBsmCondMC_equiv m g spot texp
                = Inr (map (spec_vol_eff m) I,
                       map2 (\<lambda>x Ij. spec_spot_eq_lognormal m spot texp (sigma m * x) Ij) (last p) I)"
    unfolding ModelBsmCondMC_equiv_def p using ne I assms(3)
    by (simp add: Let_def spec_vol_eff_def spec_spot_eq_lognormal_def zip_map1 split_def)
  with p I lastlen lenI show ?thesis by blast
qed

lemma ModelNormalCondMC_equiv_ok:
  assumes "0 < texp" and "0 < dt m" and "vov m \<noteq> 0"
  shows "\<exists>p I. sigma_path m g texp = Inr p \<and> intvar_normalized p = Inr I
            \<and> length (last p) = n_path m \<and> length I = n_path m
            \<and> hd p = replicate (n_path m) 1
            \<and> ModelNormalCondMC_equiv m g spot texp
                = Inr (map (spec_vol_eff m) I,
                       map2 (\<lambda>x x0. spec_spot_eq_normal m spot x x0) (last p) (hd p))"
proof -
  define n where "n = nat \<lceil>float_div texp (dt m)\<rceil>"
  have pos: "0 < \<lceil>float_div texp (dt m)\<rceil>" using assms(1,2) by (rule n_dt_pos)
  then have n1: "1 \<le> n" unfolding n_def by linarith
  obtain p where p: "sigma_path m g texp = Inr p" and len: "length p = Suc n"
    and rows: "\<forall>r\<in>set p. length r = n_path m" and p0: "p ! 0 = replicate (n_path m) 1"
    using sigma_path_wf[OF assms(1,2), of g] unfolding n_def by auto
  have ne: "p \<noteq> []" using len by (cases p) simp_all
  then have "last p \<in> set p" by simp
  with rows have lastlen: "length (last p) = n_path m" by blast
  have hd: "hd p = replicate (n_path m) 1" using p0 ne by (simp add: hd_conv_nth)
  define I where "I = map (\<lambda>k. \<Sum>t\<le>n. spec_weight n t / real n * (p ! t ! k)\<^sup>2) [0..<n_path m]"
  have I: "intvar_normalized p = Inr I"
    unfolding I_def using len n1 rows by (rule intvar_normalized_eq)
  have lenI: "length I = n_path m" by (simp add: I_def)
  have "ModelNormalCondMC_equiv m g spot texp
                = Inr (map (spec_vol_eff m) I,
                       map2 (\<lambda>x x0. spec_spot_eq_normal m spot x x0) (last p) (hd p))"
    unfolding ModelNormalCondMC_equiv_def p using ne I assms(3)
    by (simp add: Let_def spec_vol_eff_def spec_spot_eq_normal_def)
  with p I lastlen lenI hd show ?thesis by blast
qed

text \<open>Claim C6. For \<open>texp > 0\<close>, \<open>dt > 0\<close>, \<open>vov > 0\<close>, a skew of 0 or 1, a
  correlation within \<open>[-1, 1]\<close> and at least one trajectory, \<open>ModelBsmCondMC.price\<close> computes, with \<open>p\<close> the path of
  \<open>sigma_path\<close> and \<open>I\<close> its normalized integrated variance, the effective volatility
  \<open>sigma * sqrt ((1 - rho\<^sup>2) * I)\<close> and the equivalent spot
  \<open>spot * exp (rho / vov * (sigma_T - sigma) - rho\<^sup>2 * sigma\<^sup>2 * texp / 2 * I)\<close> of every
  trajectory, \<open>sigma_T\<close> being \<open>sigma\<close> times the last row of \<open>p\<close>, and returns per
  strike the mean over the trajectories of the base model's price at strike, equivalent
  spot, effective volatility, maturity and flag.\<close>

theorem ModelBsmCondMC_price_formula:
  assumes "0 < texp" and "0 < dt m" and "0 < vov m" and "beta m = 0 \<or> beta m = 1"
    and "0 < n_path m" and "\<bar>rho m\<bar> \<le> 1"
  shows "\<exists>p I vol spot_eq.
           sigma_path m g texp = Inr p \<and> intvar_normalized p = Inr I
         \<and> length (last p) = n_path m \<and> length I = n_path m
         \<and> vol = map (spec_vol_eff m) I
         \<and> spot_eq = map2 (\<lambda>x Ij. spec_spot_eq_lognormal m spot texp (sigma m * x) Ij) (last p) I
         \<and> ModelBsmCondMC_equiv m g spot texp = Inr (vol, spot_eq)
         \<and> ModelBsmCondMC_price pf m g strike spot texp cp
             = Inr (map (\<lambda>K. mean (map2 (\<lambda>s v. pf (if beta m = 0 then Norm else Bsm) v (intr m) K s texp cp)
                                      spot_eq vol)) strike)"
proof -
  have v: "vov m \<noteq> 0" using assms(3) by simp
  obtain p I where p: "sigma_path m g texp = Inr p" and I: "intvar_normalized p = Inr I"
    and l: "length (last p) = n_path m" "length I = n_path m"
    and e: "ModelBsmCondMC_equiv m g spot texp
                = Inr (map (spec_vol_eff m) I,
                       map2 (\<lambda>x Ij. spec_spot_eq_lognormal m spot texp (sigma m * x) Ij) (last p) I)"
    using ModelBsmCondMC_equiv_ok[OF assms(1,2) v, of g spot] by blast
  have "ModelBsmCondMC_price pf m g strike spot texp cp
      = Inr (map (\<lambda>K. mean (map2 (\<lambda>s v. pf (if beta m = 0 then Norm else Bsm) v (intr m) K s texp cp)
                 (map2 (\<lambda>x Ij. spec_spot_eq_lognormal m spot texp (sigma m * x) Ij) (last p) I)
                 (map (spec_vol_eff m) I))) strike)"
    unfolding ModelBsmCondMC_price_def e by (simp only: sum.case prod.case cond_price_valid[OF assms(4)])
  with p I l e show ?thesis by blast
qed

theorem ModelBsmCondMC_price_formula_witness:
  "\<exists>p I vol spot_eq.
       sigma_path \<lparr>sigma = 2, vov = 1, rho = 1, beta = 1, intr = 0, dt = 1, n_path = 1\<rparr>
         (const_draws 0) 1 = Inr p
     \<and> intvar_normalized p = Inr I
     \<and> length (last p) = 1 \<and> length I = 1
     \<and> vol = map (spec_vol_eff \<lparr>sigma = 2, vov = 1, rho = 1, beta = 1, intr = 0, dt = 1, n_path = 1\<rparr>) I
     \<and> spot_eq = map2 (\<lambda>x Ij. spec_spot_eq_lognormal
                        \<lparr>sigma = 2, vov = 1, rho = 1, beta = 1, intr = 0, dt = 1, n_path = 1\<rparr>
                        1 1 (2 * x) Ij) (last p) I
     \<and> ModelBsmCondMC_equiv \<lparr>sigma = 2, vov = 1, rho = 1, beta = 1, intr = 0, dt = 1, n_path = 1\<rparr>
         (const_draws 0) 1 1 = Inr (vol, spot_eq)
     \<and> ModelBsmCondMC_price pf_spot
         \<lparr>sigma = 2, vov = 1, rho = 1, beta = 1, intr = 0, dt = 1, n_path = 1\<rparr>
         (const_draws 0) [1] 1 1 1
        = Inr [mean (map2 (\<lambda>s v. pf_spot Bsm v 0 1 s 1 1) spot_eq vol)]"
  using ModelBsmCondMC_price_formula [of 1
      "\<lparr>sigma = 2, vov = 1, rho = 1, beta = 1, intr = 0, dt = 1, n_path = 1\<rparr>"
      "const_draws 0" 1 pf_spot "[1]" 1]
  by simp

lemma sigma_path_at_1:
  "sigma_path \<lparr>sigma = 2, vov = 1, rho = 1, beta = 0, intr = 0, dt = 1, n_path = 1\<rparr>
     (const_draws 0) 1 = Inr [[1], [exp (- 1 / 2)]]"
  by (simp add: sigma_path_def standard_normal_def tobs_grid_def cumsum0_def Let_def
        const_draws_def upto_rec1 float_div_values)

lemma exp_half_ne: "exp (- 1 / 2) - 1 \<noteq> 2 * exp (- 1 / 2) - (2::real)"
  by simp

text \<open>Claim C1. \<open>ModelNormalCondMC.price\<close> takes \<open>sigma_t\<close> and \<open>sigma_0\<close> from the
  normalized path, without the factor \<open>self.sigma\<close> that \<open>ModelBsmCondMC.price\<close>
  applies. With \<open>sigma = 2\<close>, \<open>vov = 1\<close>, \<open>rho = 1\<close>, one step, one trajectory and the
  draw 0, the normalized path is 1, \<open>exp (-1/2)\<close>; the code's equivalent spot for spot
  0 is \<open>exp (-1/2) - 1\<close>, while the volatilities in absolute units, \<open>2 exp (-1/2)\<close> and
  2, give \<open>2 exp (-1/2) - 2\<close>.\<close>

theorem ModelNormalCondMC_spot_equiv_normalized:
  "sigma_path \<lparr>sigma = 2, vov = 1, rho = 1, beta = 0, intr = 0, dt = 1, n_path = 1\<rparr>
     (const_draws 0) 1 = Inr [[1], [exp (- 1 / 2)]]
   \<and> ModelNormalCondMC_equiv \<lparr>sigma = 2, vov = 1, rho = 1, beta = 0, intr = 0, dt = 1, n_path = 1\<rparr>
       (const_draws 0) 0 1 = Inr ([0], [exp (- 1 / 2) - 1])
   \<and> spec_spot_eq_normal \<lparr>sigma = 2, vov = 1, rho = 1, beta = 0, intr = 0, dt = 1, n_path = 1\<rparr>
       0 (2 * exp (- 1 / 2)) (2 * 1) = 2 * exp (- 1 / 2) - 2
   \<and> exp (- 1 / 2) - 1 \<noteq> 2 * exp (- 1 / 2) - (2::real)"
proof -
  have "ModelNormalCondMC_equiv \<lparr>sigma = 2, vov = 1, rho = 1, beta = 0, intr = 0, dt = 1, n_path = 1\<rparr>
       (const_draws 0) 0 1 = Inr ([0], [exp (- 1 / 2) - 1])"
    unfolding ModelNormalCondMC_equiv_def sigma_path_at_1
    by (simp add: intvar_normalized_def trapz_weight_def Let_def)
  then show ?thesis
    using sigma_path_at_1 exp_half_ne by (simp add: spec_spot_eq_normal_def)
qed

section \<open>Unsupported skew and maturities that are not positive\<close>

lemma direct_paths_beta: "direct_paths (m\<lparr>beta := b\<rparr>) gW gZ texp = direct_paths m gW gZ texp"
  by (simp add: direct_paths_def Let_def standard_normal_def)

lemma ModelBsmMC_price_beta:
  "ModelBsmMC_price (m\<lparr>beta := b\<rparr>) gW gZ strike spot texp cp
     = ModelBsmMC_price m gW gZ strike spot texp cp"
  by (simp add: ModelBsmMC_price_def ModelBsmMC_S_T_def direct_paths_beta BsmMC_S_T_def
      payoff_price_def split: sum.split prod.split)

lemma ModelNormalMC_price_beta:
  "ModelNormalMC_price (m\<lparr>beta := b\<rparr>) gW gZ strike spot texp cp
     = ModelNormalMC_price m gW gZ strike spot texp cp"
  by (simp add: ModelNormalMC_price_def ModelNormalMC_S_T_def direct_paths_beta NormalMC_S_T_def
      payoff_price_def split: sum.split prod.split)

lemma ModelBsmCondMC_price_invalid:
  assumes "beta m \<noteq> 0" and "beta m \<noteq> 1"
  shows "\<exists>e. ModelBsmCondMC_price pf m g strike spot texp cp = Inl e"
  by (cases "ModelBsmCondMC_equiv m g spot texp")
    (auto simp: ModelBsmCondMC_price_def cond_price_invalid[OF assms])

lemma ModelNormalCondMC_price_invalid:
  assumes "beta m \<noteq> 0" and "beta m \<noteq> 1"
  shows "\<exists>e. ModelNormalCondMC_price pf m g strike spot texp cp = Inl e"
  by (cases "ModelNormalCondMC_equiv m g spot texp")
    (auto simp: ModelNormalCondMC_price_def cond_price_invalid[OF assms])

lemma cond_price_invalid_ValueError:
  assumes "beta m \<noteq> 0" and "beta m \<noteq> 1" and "0 < texp" and "0 < dt m" and "vov m \<noteq> 0"
  shows "ModelBsmCondMC_price pf m g strike spot texp cp = Inl ValueError
       \<and> ModelNormalCondMC_price pf m g strike spot texp cp = Inl ValueError"
proof -
  obtain v s where b: "ModelBsmCondMC_equiv m g spot texp = Inr (v, s)"
    using ModelBsmCondMC_equiv_ok[OF assms(3,4,5), of g spot] by blast
  obtain v' s' where n: "ModelNormalCondMC_equiv m g spot texp = Inr (v', s')"
    using ModelNormalCondMC_equiv_ok[OF assms(3,4,5), of g spot] by blast
  show ?thesis
    by (simp add: ModelBsmCondMC_price_def ModelNormalCondMC_price_def b n
        cond_price_invalid[OF assms(1,2)])
qed

text \<open>Claim C4 as it is stated does not hold: with the skew \<open>1/2\<close> both direct
  pricers return a price.\<close>

theorem direct_price_beta_half:
  "ModelNormalMC_price \<lparr>sigma = 1, vov = 0, rho = 0, beta = 1 / 2, intr = 0, dt = 1, n_path = 1\<rparr>
     (const_draws 1) (const_draws 0) [0] 0 1 1 = Inr [1]
   \<and> ModelBsmMC_price \<lparr>sigma = 1, vov = 0, rho = 0, beta = 1 / 2, intr = 0, dt = 1, n_path = 1\<rparr>
     (const_draws 0) (const_draws 0) [0] 1 1 1 = Inr [exp (- 1 / 2)]"
proof -
  have p: "\<And>c. direct_paths \<lparr>sigma = 1, vov = 0, rho = 0, beta = 1 / 2, intr = 0, dt = 1, n_path = 1\<rparr>
     (const_draws c) (const_draws 0) 1 = Inr (1, [[c]], [[1], [1]])"
    by (simp add: direct_paths_def standard_normal_def tobs_grid_def cumsum0_def Let_def
        const_draws_def upto_rec1 float_div_values)
  show ?thesis
    unfolding ModelNormalMC_price_def ModelBsmMC_price_def ModelNormalMC_S_T_def
      ModelBsmMC_S_T_def p
    by (simp add: NormalMC_S_T_def BsmMC_S_T_def payoff_price_def mean_def fmax_def Let_def)
qed

text \<open>Claim C4, amended. For a skew strictly between 0 and 1, \<open>base_model\<close> fails with
  \<open>ValueError\<close>, so every call of a conditional pricer fails: with \<open>ValueError\<close> when
  the path generation and the quotient \<open>rho / vov\<close> succeed before (\<open>texp > 0\<close>,
  \<open>dt > 0\<close>, \<open>vov \<noteq> 0\<close>). The direct pricers do not read the skew: their result is
  the one for skew 1, and for skew 0.\<close>

theorem beta_between_fails_in_base_model:
  assumes "0 < beta m" and "beta m < 1"
  shows "base_model m s = Inl ValueError
       \<and> (\<exists>e. ModelBsmCondMC_price pf m g strike spot texp cp = Inl e)
       \<and> (\<exists>e. ModelNormalCondMC_price pf m g strike spot texp cp = Inl e)
       \<and> (0 < texp \<and> 0 < dt m \<and> vov m \<noteq> 0 \<longrightarrow>
            ModelBsmCondMC_price pf m g strike spot texp cp = Inl ValueError
          \<and> ModelNormalCondMC_price pf m g strike spot texp cp = Inl ValueError)
       \<and> ModelBsmMC_price m gW gZ strike spot texp cp
            = ModelBsmMC_price (m\<lparr>beta := 1\<rparr>) gW gZ strike spot texp cp
       \<and> ModelNormalMC_price m gW gZ strike spot texp cp
            = ModelNormalMC_price (m\<lparr>beta := 0\<rparr>) gW gZ strike spot texp cp"
proof -
  have b: "beta m \<noteq> 0" "beta m \<noteq> 1" using assms by simp_all
  show ?thesis
    using base_model_invalid[OF b] ModelBsmCondMC_price_invalid[OF b]
      ModelNormalCondMC_price_invalid[OF b] cond_price_invalid_ValueError[OF b]
    by (simp add: ModelBsmMC_price_beta ModelNormalMC_price_beta)
qed

theorem beta_between_fails_in_base_model_witness:
  "base_model \<lparr>sigma = 1, vov = 1, rho = 0, beta = 1 / 2, intr = 0, dt = 1, n_path = 1\<rparr> None
     = Inl ValueError
   \<and> ModelBsmCondMC_price pf_spot
        \<lparr>sigma = 1, vov = 1, rho = 0, beta = 1 / 2, intr = 0, dt = 1, n_path = 1\<rparr>
        (const_draws 0) [1] 1 1 1 = Inl ValueError
   \<and> ModelNormalCondMC_price pf_spot
        \<lparr>sigma = 1, vov = 1, rho = 0, beta = 1 / 2, intr = 0, dt = 1, n_path = 1\<rparr>
        (const_draws 0) [1] 1 1 1 = Inl ValueError"
  using beta_between_fails_in_base_model [of
      "\<lparr>sigma = 1, vov = 1, rho = 0, beta = 1 / 2, intr = 0, dt = 1, n_path = 1\<rparr>"
      None pf_spot "const_draws 0" "[1]" 1 1 1]
  by simp

lemma direct_paths_n0:
  assumes "dt m \<noteq> 0" and "\<lceil>float_div texp (dt m)\<rceil> = 0"
  shows "direct_paths m gW gZ texp = Inr (0, [], [map (\<lambda>x. sigma m * x) (replicate (n_path m) 1)])"
  using assms by (simp add: direct_paths_def standard_normal_def tobs_grid_def cumsum0_def Let_def)

lemma direct_price_n0:
  assumes "dt m \<noteq> 0" and "\<lceil>float_div texp (dt m)\<rceil> = 0"
  shows "ModelBsmMC_price m gW gZ strike spot texp cp
           = Inr (payoff_price m (replicate (n_path m) (exp (ln spot))) strike texp cp)"
    and "ModelNormalMC_price m gW gZ strike spot texp cp
           = Inr (payoff_price m (replicate (n_path m) spot) strike texp cp)"
  unfolding ModelBsmMC_price_def ModelNormalMC_price_def ModelBsmMC_S_T_def ModelNormalMC_S_T_def
    direct_paths_n0[OF assms]
  by (simp_all add: BsmMC_S_T_def NormalMC_S_T_def map_replicate_const)

lemma direct_price_neg:
  assumes "dt m \<noteq> 0" and "\<lceil>float_div texp (dt m)\<rceil> < 0"
  shows "ModelBsmMC_price m gW gZ strike spot texp cp = Inl ValueError"
    and "ModelNormalMC_price m gW gZ strike spot texp cp = Inl ValueError"
  unfolding ModelBsmMC_price_def ModelNormalMC_price_def ModelBsmMC_S_T_def ModelNormalMC_S_T_def
    direct_paths_neg[OF assms]
  by simp_all

lemma cond_price_sigma_path_error:
  assumes "dt m = 0 \<or> \<lceil>float_div texp (dt m)\<rceil> \<le> 0"
  shows "ModelBsmCondMC_price pf m g strike spot texp cp
           = Inl (if dt m \<noteq> 0 \<and> \<lceil>float_div texp (dt m)\<rceil> < 0 then IndexError else ZeroDivisionError)"
    and "ModelNormalCondMC_price pf m g strike spot texp cp
           = Inl (if dt m \<noteq> 0 \<and> \<lceil>float_div texp (dt m)\<rceil> < 0 then IndexError else ZeroDivisionError)"
  unfolding ModelBsmCondMC_price_def ModelNormalCondMC_price_def ModelBsmCondMC_equiv_def
    ModelNormalCondMC_equiv_def sigma_path_error[OF assms]
  by simp_all

text \<open>Claim C5 as it is stated does not hold: at maturity 0 the direct pricers
  return the payoff of the spot, here \<open>max (3 - 1) 0 = 2\<close> for the call and
  \<open>max (- (1 - 1)) 0 = 0\<close> for the put.\<close>

theorem direct_price_at_maturity_0:
  "ModelNormalMC_price \<lparr>sigma = 1, vov = 0, rho = 0, beta = 0, intr = 0, dt = 1, n_path = 1\<rparr>
     (const_draws 0) (const_draws 0) [1] 3 0 1 = Inr [2]
   \<and> ModelBsmMC_price \<lparr>sigma = 1, vov = 0, rho = 0, beta = 1, intr = 0, dt = 1, n_path = 1\<rparr>
     (const_draws 0) (const_draws 0) [1] 1 0 (- 1) = Inr [0]"
proof -
  have d: "\<And>b. dt \<lparr>sigma = 1, vov = 0, rho = 0, beta = b, intr = 0, dt = 1, n_path = 1\<rparr> \<noteq> 0"
    by simp
  have n: "\<And>b. \<lceil>float_div 0 (dt \<lparr>sigma = 1, vov = 0, rho = 0, beta = b, intr = 0, dt = 1, n_path = 1\<rparr>)\<rceil> = 0"
    by (simp add: float_div_values)
  show ?thesis
    unfolding direct_price_n0[OF d n]
    by (simp add: payoff_price_def mean_def fmax_def Let_def)
qed

text \<open>Claim C5, amended. For a maturity \<open>texp \<le> 0\<close>, with \<open>dt > 0\<close>, a positive spot
  and at least one trajectory: the conditional
  pricers fail, with \<open>ZeroDivisionError\<close> when \<open>ceil(texp / dt) = 0\<close> and with
  \<open>IndexError\<close> when it is negative; the direct pricers fail with \<open>ValueError\<close> when
  \<open>ceil(texp / dt)\<close> is negative, and otherwise return the discounted mean payoff of
  the spot left where it started.\<close>

theorem nonpositive_maturity:
  assumes "texp \<le> 0" and "0 < dt m" and "0 < spot" and "0 < n_path m"
  shows "ModelBsmCondMC_price pf m g strike spot texp cp
           = Inl (if \<lceil>float_div texp (dt m)\<rceil> < 0 then IndexError else ZeroDivisionError)
       \<and> ModelNormalCondMC_price pf m g strike spot texp cp
           = Inl (if \<lceil>float_div texp (dt m)\<rceil> < 0 then IndexError else ZeroDivisionError)
       \<and> ModelBsmMC_price m gW gZ strike spot texp cp
           = (if \<lceil>float_div texp (dt m)\<rceil> < 0 then Inl ValueError
              else Inr (payoff_price m (replicate (n_path m) spot) strike texp cp))
       \<and> ModelNormalMC_price m gW gZ strike spot texp cp
           = (if \<lceil>float_div texp (dt m)\<rceil> < 0 then Inl ValueError
              else Inr (payoff_price m (replicate (n_path m) spot) strike texp cp))"
proof -
  have d: "dt m \<noteq> 0" using assms(2) by simp
  have le: "\<lceil>float_div texp (dt m)\<rceil> \<le> 0" using assms(1,2) by (rule n_dt_nonpos)
  then have e: "dt m = 0 \<or> \<lceil>float_div texp (dt m)\<rceil> \<le> 0" by blast
  show ?thesis
  proof (cases "\<lceil>float_div texp (dt m)\<rceil> < 0")
    case True
    show ?thesis
      unfolding cond_price_sigma_path_error[OF e] direct_price_neg[OF d True]
      using True d by (simp only: if_True simp_thms)
  next
    case False
    with le have z: "\<lceil>float_div texp (dt m)\<rceil> = 0" by linarith
    have s: "exp (ln spot) = spot" using assms(3) by simp
    show ?thesis
      unfolding cond_price_sigma_path_error[OF e] direct_price_n0[OF d z] s
      using False d by (simp only: if_False simp_thms)
  qed
qed

theorem nonpositive_maturity_witness:
  "ModelBsmCondMC_price pf_spot \<lparr>sigma = 1, vov = 1, rho = 0, beta = 1, intr = 0, dt = 1, n_path = 1\<rparr>
       (const_draws 0) [1] 3 0 1 = Inl ZeroDivisionError
   \<and> ModelNormalCondMC_price pf_spot \<lparr>sigma = 1, vov = 1, rho = 0, beta = 1, intr = 0, dt = 1, n_path = 1\<rparr>
       (const_draws 0) [1] 3 (- 2) 1 = Inl IndexError
   \<and> ModelBsmMC_price \<lparr>sigma = 1, vov = 1, rho = 0, beta = 1, intr = 0, dt = 1, n_path = 1\<rparr>
       (const_draws 0) (const_draws 0) [1] 3 (- 2) 1 = Inl ValueError
   \<and> ModelNormalMC_price \<lparr>sigma = 1, vov = 1, rho = 0, beta = 1, intr = 0, dt = 1, n_path = 1\<rparr>
       (const_draws 0) (const_draws 0) [1] 3 0 1
       = Inr (payoff_price \<lparr>sigma = 1, vov = 1, rho = 0, beta = 1, intr = 0, dt = 1, n_path = 1\<rparr>
                [3] [1] 0 1)"
  using nonpositive_maturity [where texp = 0
      and m = "\<lparr>sigma = 1, vov = 1, rho = 0, beta = 1, intr = 0, dt = 1, n_path = 1\<rparr>"
      and pf = pf_spot and g = "const_draws 0" and strike = "[1]" and spot = 3 and cp = 1
      and gW = "const_draws 0" and gZ = "const_draws 0"]
    nonpositive_maturity [where texp = "- 2"
      and m = "\<lparr>sigma = 1, vov = 1, rho = 0, beta = 1, intr = 0, dt = 1, n_path = 1\<rparr>"
      and pf = pf_spot and g = "const_draws 0" and strike = "[1]" and spot = 3 and cp = 1
      and gW = "const_draws 0" and gZ = "const_draws 0"]
  by (simp add: float_div_values)

end
